theory Spec2Isabelle
  imports Main "HOL-Library.Sublist" "HOL-Library.Word"
begin

section \<open>JavaScript strings and the built-ins the tools call\<close>

text \<open>
  URLs, header values, paths and messages are only compared, concatenated and matched
  against ASCII patterns by the tools, so they are modelled as \<open>string\<close>.  The text of a
  fetched file is the one string whose \<open>.length\<close> is taken; it is modelled as the list of
  its UTF-16 code units, which is what \<open>.length\<close> counts.
\<close>

type_synonym utf16 = "16 word list"

abbreviation dq :: char where
  "dq \<equiv> CHR 0x22"

definition is_digit :: "char \<Rightarrow> bool" where
  "is_digit c = (c \<in> set ''0123456789'')"

definition digit_val :: "char \<Rightarrow> nat" where
  "digit_val c = of_char c - 48"

text \<open>The value of a run of decimal digits, most significant first.\<close>

definition digits_value :: "string \<Rightarrow> nat" where
  "digits_value ds = foldl (\<lambda>acc c. 10 * acc + digit_val c) 0 ds"

text \<open>\<open>parseInt(s, 10)\<close> on a capture of \<open>\d+\<close>: the argument is a non-empty digit run.
  The result is a Number, exact below \<open>2 ^ 53\<close>.\<close>

definition parseInt10 :: "string \<Rightarrow> nat" where
  "parseInt10 ds = digits_value ds"

text \<open>\<open>s.split(c)\<close> for a one-character separator: the empty string splits into one empty
  piece.\<close>

fun split_on :: "char \<Rightarrow> string \<Rightarrow> string list" where
  "split_on c [] = [[]]"
| "split_on c (x # xs) =
     (if x = c then [] # split_on c xs
      else (x # hd (split_on c xs)) # tl (split_on c xs))"

text \<open>\<open>xs.join(sep)\<close>.\<close>

fun join :: "string \<Rightarrow> string list \<Rightarrow> string" where
  "join sep [] = []"
| "join sep [x] = x"
| "join sep (x # y # ys) = x @ sep @ join sep (y # ys)"

text \<open>\<open>s.includes(sub)\<close>.\<close>

fun str_includes :: "string \<Rightarrow> string \<Rightarrow> bool" where
  "str_includes sub [] = (sub = [])"
| "str_includes sub (c # cs) = (prefix sub (c # cs) \<or> str_includes sub cs)"

text \<open>The template-literal rendering of a non-negative integer.\<close>

fun string_of_nat :: "nat \<Rightarrow> string" where
  "string_of_nat n =
     (if n < 10 then [char_of (48 + n)]
      else string_of_nat (n div 10) @ [char_of (48 + n mod 10)])"

subsection \<open>The regular expressions \<open>/page=(\d+)>; rel="last"/\<close> and \<open>/page=(\d+)>; rel="next"/\<close>\<close>

definition marker_tail :: "string \<Rightarrow> string" where
  "marker_tail rel = ''>; rel='' @ [dq] @ rel @ [dq]"

text \<open>A match starting at the head of \<open>s\<close>.  The character after the digits must be
  \<open>>\<close>, so only the maximal digit run can match and backtracking finds nothing else.\<close>

definition match_here :: "string \<Rightarrow> string \<Rightarrow> string option" where
  "match_here rel s =
     (if prefix ''page='' s then
        (let r = drop 5 s; ds = takeWhile is_digit r; rest = dropWhile is_digit r
         in if ds \<noteq> [] \<and> prefix (marker_tail rel) rest then Some ds else None)
      else None)"

text \<open>\<open>s.match(re)\<close>: the capture group of the leftmost match, \<open>None\<close> for \<open>null\<close>.\<close>

fun match_page_rel :: "string \<Rightarrow> string \<Rightarrow> string option" where
  "match_page_rel rel [] = None"
| "match_page_rel rel (c # cs) =
     (case match_here rel (c # cs) of
        Some ds \<Rightarrow> Some ds
      | None \<Rightarrow> match_page_rel rel cs)"

text \<open>\<open>s.replace(/\.git$/, '')\<close>: without the \<open>m\<close> flag \<open>$\<close> is the end of the string.\<close>

definition replace_git_suffix :: "string \<Rightarrow> string" where
  "replace_git_suffix s = (if suffix ''.git'' s then take (length s - 4) s else s)"

section \<open>The repository-URL parser (src/tools/overview.ts)\<close>

text \<open>The two properties of a \<open>URL\<close> object that the parser reads.  The platform's
  \<open>new URL(s)\<close> is a parameter: \<open>None\<close> when it throws.\<close>

record url =
  hostname :: string
  pathname :: string

record ParsedRepoInfo =
  owner :: string
  repo :: string

definition parseRepoUrl :: "(string \<Rightarrow> url option) \<Rightarrow> string \<Rightarrow> ParsedRepoInfo option" where
  "parseRepoUrl URL u =
     (case URL u of
        None \<Rightarrow> None
      | Some parsed \<Rightarrow>
          if hostname parsed \<noteq> ''github.com'' \<and> hostname parsed \<noteq> ''www.github.com'' then None
          else
            (let pathParts = filter (\<lambda>s. s \<noteq> []) (split_on CHR ''/'' (pathname parsed))
             in if length pathParts < 2 then None
                else Some \<lparr>owner = pathParts ! 0, repo = replace_git_suffix (pathParts ! 1)\<rparr>))"

text \<open>The parser as section 4.1 of the specification words it: the non-empty path
  segments are the maximal runs of characters other than \<open>/\<close>, and a repository name
  \<open>r\<close> is \<open>s\<close> with a trailing \<open>.git\<close> stripped.\<close>

function path_segments :: "string \<Rightarrow> string list" where
  "path_segments [] = []"
| "path_segments (c # cs) =
     (if c = CHR ''/'' then path_segments cs
      else takeWhile (\<lambda>x. x \<noteq> CHR ''/'') (c # cs)
             # path_segments (dropWhile (\<lambda>x. x \<noteq> CHR ''/'') cs))"
  by pat_completeness auto
termination
  by (relation "measure length") (auto simp: le_imp_less_Suc length_dropWhile_le)

definition git_stripped :: "string \<Rightarrow> string \<Rightarrow> bool" where
  "git_stripped s r = (s = r @ ''.git'' \<or> (r = s \<and> \<not> (\<exists>t. s = t @ ''.git'')))"

text \<open>A fragment of the platform's URL constructor, enough for absolute \<open>https\<close> URLs
  without port, query or fragment: the host is the text up to the first \<open>/\<close>, the path
  the rest.\<close>

definition https_URL :: "string \<Rightarrow> url option" where
  "https_URL u =
     (if prefix ''https://'' u then
        (let r = drop 8 u; h = takeWhile (\<lambda>c. c \<noteq> CHR ''/'') r; p = dropWhile (\<lambda>c. c \<noteq> CHR ''/'') r
         in if h = [] then None else Some \<lparr>hostname = h, pathname = (if p = [] then ''/'' else p)\<rparr>)
      else None)"

section \<open>Responses, thrown values and envelopes (src/types.ts)\<close>

text \<open>What a \<open>catch\<close> clause can receive: an \<open>Error\<close> object with its name and message,
  or any other value.\<close>

datatype thrown = JsError string string | NonError

text \<open>The parts of a fetch \<open>Response\<close> that the tools read.  Header names are lower-case;
  \<open>headers.get\<close> returns \<open>null\<close> (\<open>None\<close>) for a header that is not there.  The body is
  what \<open>response.json()\<close> or \<open>response.text()\<close> settles with: \<open>Inl\<close> when it rejects.\<close>

record 'b response =
  status :: nat
  statusText :: string
  headers :: "string \<Rightarrow> string option"
  body :: "thrown + 'b"

datatype 'b fetch_outcome = Rejected thrown | Resolved "'b response"

definition response_ok :: "'b response \<Rightarrow> bool" where
  "response_ok r = (200 \<le> status r \<and> status r \<le> 299)"

datatype ErrorCode =
  INVALID_INPUT | UPSTREAM_ERROR | RATE_LIMITED | TIMEOUT | PARSE_ERROR | INTERNAL_ERROR

datatype jsvalue = JNull | JString string | JNumber int

record success_meta =
  source :: "string option"
  retrieved_at :: string
  next_cursor :: "string option"
  warnings :: "string list"

record error_body =
  code :: ErrorCode
  message :: string
  details :: "(string \<times> jsvalue) list"

datatype 'd ApiResponse = SuccessResponse 'd success_meta | ErrorResponse error_body string

fun ok :: "'d ApiResponse \<Rightarrow> bool" where
  "ok (SuccessResponse d m) = True"
| "ok (ErrorResponse e t) = False"

fun error_code :: "'d ApiResponse \<Rightarrow> ErrorCode option" where
  "error_code (SuccessResponse d m) = None"
| "error_code (ErrorResponse e t) = Some (code e)"

fun error_details :: "'d ApiResponse \<Rightarrow> (string \<times> jsvalue) list" where
  "error_details (SuccessResponse d m) = []"
| "error_details (ErrorResponse e t) = details e"

fun meta_warnings :: "'d ApiResponse \<Rightarrow> string list" where
  "meta_warnings (SuccessResponse d m) = warnings m"
| "meta_warnings (ErrorResponse e t) = []"

fun meta_next_cursor :: "'d ApiResponse \<Rightarrow> string option" where
  "meta_next_cursor (SuccessResponse d m) = next_cursor m"
| "meta_next_cursor (ErrorResponse e t) = None"

fun response_data :: "'d ApiResponse \<Rightarrow> 'd option" where
  "response_data (SuccessResponse d m) = Some d"
| "response_data (ErrorResponse e t) = None"

text \<open>The first argument of both constructors is \<open>new Date().toISOString()\<close> at the moment
  of construction.  The options of \<open>createSuccessResponse\<close> are optional.\<close>

definition createSuccessResponse ::
  "string \<Rightarrow> 'd \<Rightarrow> string option \<Rightarrow> string list option \<Rightarrow> string option \<Rightarrow> 'd ApiResponse" where
  "createSuccessResponse ts d src warns cursor =
     SuccessResponse d
       \<lparr>source = src, retrieved_at = ts, next_cursor = cursor,
        warnings = (case warns of None \<Rightarrow> [] | Some w \<Rightarrow> w)\<rparr>"

definition createErrorResponse ::
  "string \<Rightarrow> ErrorCode \<Rightarrow> string \<Rightarrow> (string \<times> jsvalue) list \<Rightarrow> 'd ApiResponse" where
  "createErrorResponse ts c msg dets =
     ErrorResponse \<lparr>code = c, message = msg, details = dets\<rparr> ts"

section \<open>The platform\<close>

text \<open>What the tools take from their environment: the \<open>URL\<close> constructor, the rendering
  \<open>Date.prototype.toISOString\<close> of a valid time value (milliseconds since the epoch), the
  current time as an ISO string, and the configured request timeout.\<close>

record platform =
  newURL :: "string \<Rightarrow> url option"
  toISOString :: "int \<Rightarrow> string"
  now_iso :: string
  requestTimeoutMs :: int

text \<open>\<open>parseInt(s)\<close> without a radix: leading white space, a sign, an optional \<open>0x\<close>
  prefix, then the longest run of digits of the radix; \<open>None\<close> is \<open>NaN\<close>.  Header values
  are byte strings, so the white space is the part of \<open>StrWhiteSpaceChar\<close> below 256.\<close>

definition is_space :: "char \<Rightarrow> bool" where
  "is_space c = ((of_char c :: nat) \<in> {9, 10, 11, 12, 13, 32, 160})"

definition hex_val :: "char \<Rightarrow> nat option" where
  "hex_val c =
     (let n = (of_char c :: nat) in
      if 48 \<le> n \<and> n \<le> 57 then Some (n - 48)
      else if 97 \<le> n \<and> n \<le> 102 then Some (n - 87)
      else if 65 \<le> n \<and> n \<le> 70 then Some (n - 55)
      else None)"

definition radix_digit :: "nat \<Rightarrow> char \<Rightarrow> nat option" where
  "radix_digit R c = (case hex_val c of Some v \<Rightarrow> if v < R then Some v else None | None \<Rightarrow> None)"

definition parseInt :: "string \<Rightarrow> int option" where
  "parseInt s =
     (let t = dropWhile is_space s;
          neg = (t \<noteq> [] \<and> hd t = CHR ''-'');
          t1 = (if t \<noteq> [] \<and> (hd t = CHR ''-'' \<or> hd t = CHR ''+'') then tl t else t);
          hex = (prefix ''0x'' t1 \<or> prefix ''0X'' t1);
          R = (if hex then 16 else 10);
          t2 = (if hex then drop 2 t1 else t1);
          ds = takeWhile (\<lambda>c. radix_digit R c \<noteq> None) t2
      in if ds = [] then None
         else Some ((if neg then - 1 else 1)
                * int (foldl (\<lambda>acc c. R * acc + the (radix_digit R c)) 0 ds)))"

text \<open>\<open>resetTime ? new Date(parseInt(resetTime) * 1000).toISOString() : null\<close>.  An empty
  string is falsy.  A \<open>Date\<close> is valid when its time value is a number of magnitude at most
  \<open>8.64e15\<close>; \<open>toISOString\<close> throws a \<open>RangeError\<close> on any other.  Every product up to that
  bound is an exact Number, and every larger one stays above the bound after rounding.\<close>

definition reset_at_value :: "platform \<Rightarrow> string option \<Rightarrow> thrown + jsvalue" where
  "reset_at_value P resetTime =
     (case resetTime of
        None \<Rightarrow> Inr JNull
      | Some t \<Rightarrow>
          if t = [] then Inr JNull
          else (case parseInt t of
                  None \<Rightarrow> Inl (JsError ''RangeError'' ''Invalid time value'')
                | Some n \<Rightarrow>
                    if \<bar>n * 1000\<bar> \<le> 8640000000000000
                    then Inr (JString (toISOString P (n * 1000)))
                    else Inl (JsError ''RangeError'' ''Invalid time value'')))"

section \<open>The overview and release-notes tools (src/tools/overview.ts, src/tools/releases.ts)\<close>

text \<open>The \<open>catch\<close> clause that every tool entry point ends with.\<close>

definition handle_thrown :: "platform \<Rightarrow> thrown \<Rightarrow> 'd ApiResponse" where
  "handle_thrown P e =
     (case e of
        JsError nm msg \<Rightarrow>
          if nm = ''AbortError''
          then createErrorResponse (now_iso P) TIMEOUT ''Request timed out''
                 [(''timeout_ms'', JNumber (requestTimeoutMs P))]
          else createErrorResponse (now_iso P) INTERNAL_ERROR msg [(''error_name'', JString nm)]
      | NonError \<Rightarrow>
          createErrorResponse (now_iso P) INTERNAL_ERROR ''An unexpected error occurred'' [])"

definition invalid_url_response :: "platform \<Rightarrow> string \<Rightarrow> 'd ApiResponse" where
  "invalid_url_response P repoUrl =
     createErrorResponse (now_iso P) INVALID_INPUT
       ''Invalid GitHub repository URL. Expected format: https://github.com/owner/repo''
       [(''provided_url'', JString repoUrl)]"

text \<open>The status checks that \<open>repoOverview\<close> (lines 89 to 118) and \<open>releaseNotes\<close> (lines 40
  to 69) share word for word: \<open>Some\<close> the envelope returned, \<open>None\<close> when the response
  passes.  The \<open>RangeError\<close> of \<open>toISOString\<close> is thrown inside the \<open>try\<close> block, so it ends
  in the \<open>catch\<close> clause.\<close>

definition status_checks :: "platform \<Rightarrow> ParsedRepoInfo \<Rightarrow> 'b response \<Rightarrow> 'd ApiResponse option" where
  "status_checks P repoInfo r =
     (if status r = 404 then
        Some (createErrorResponse (now_iso P) UPSTREAM_ERROR
                (''Repository not found: '' @ owner repoInfo @ ''/'' @ repo repoInfo)
                [(''status'', JNumber 404)])
      else if status r = 403 then
        (if headers r ''x-ratelimit-remaining'' = Some ''0'' then
           (case reset_at_value P (headers r ''x-ratelimit-reset'') of
              Inl e \<Rightarrow> Some (handle_thrown P e)
            | Inr v \<Rightarrow>
                Some (createErrorResponse (now_iso P) RATE_LIMITED ''GitHub API rate limit exceeded''
                        [(''reset_at'', v)]))
         else Some (createErrorResponse (now_iso P) UPSTREAM_ERROR ''Access forbidden''
                      [(''status'', JNumber 403)]))
      else if \<not> response_ok r then
        Some (createErrorResponse (now_iso P) UPSTREAM_ERROR
                (''GitHub API error: '' @ string_of_nat (status r) @ '' '' @ statusText r)
                [(''status'', JNumber (int (status r)))])
      else None)"

text \<open>The repository resource as the tools read it.  \<open>topics\<close>, \<open>license\<close> and
  \<open>default_branch\<close> may be missing at run time, which the code provides for.\<close>

record GitHubRepoResponse =
  gh_name :: string
  gh_full_name :: string
  gh_description :: "string option"
  gh_stargazers_count :: int
  gh_forks_count :: int
  gh_language :: "string option"
  gh_topics :: "string list option"
  gh_license_spdx_id :: "string option"
  gh_created_at :: string
  gh_updated_at :: string
  gh_default_branch :: "string option"
  gh_homepage :: "string option"
  gh_open_issues_count :: int
  gh_watchers_count :: int
  gh_has_wiki :: bool
  gh_has_discussions :: bool
  gh_owner_login :: string
  gh_owner_avatar_url :: string
  gh_owner_type :: string

record RepoOverviewData =
  ov_name :: string
  ov_full_name :: string
  ov_description :: "string option"
  ov_stars :: int
  ov_forks :: int
  ov_language :: "string option"
  ov_topics :: "string list"
  ov_license :: "string option"
  ov_created_at :: string
  ov_updated_at :: string
  ov_default_branch :: "string option"
  ov_homepage :: "string option"
  ov_owner_login :: string
  ov_owner_avatar_url :: string
  ov_owner_type :: string

definition overviewData :: "GitHubRepoResponse \<Rightarrow> RepoOverviewData" where
  "overviewData d =
     \<lparr>ov_name = gh_name d, ov_full_name = gh_full_name d, ov_description = gh_description d,
      ov_stars = gh_stargazers_count d, ov_forks = gh_forks_count d, ov_language = gh_language d,
      ov_topics = (case gh_topics d of None \<Rightarrow> [] | Some ts \<Rightarrow> ts),
      ov_license = gh_license_spdx_id d,
      ov_created_at = gh_created_at d, ov_updated_at = gh_updated_at d,
      ov_default_branch = gh_default_branch d, ov_homepage = gh_homepage d,
      ov_owner_login = gh_owner_login d, ov_owner_avatar_url = gh_owner_avatar_url d,
      ov_owner_type = gh_owner_type d\<rparr>"

text \<open>Every tool returns its envelope together with the URLs it passed to
  \<open>rateLimitedFetch\<close>, in the order of the calls.  The argument \<open>fetch\<close> is the upstream:
  what the call to a URL settles with.\<close>

definition repoOverview ::
  "platform \<Rightarrow> (string \<Rightarrow> GitHubRepoResponse fetch_outcome) \<Rightarrow> string
     \<Rightarrow> RepoOverviewData ApiResponse \<times> string list" where
  "repoOverview P fetch repoUrl =
     (case parseRepoUrl (newURL P) repoUrl of
        None \<Rightarrow> (invalid_url_response P repoUrl, [])
      | Some repoInfo \<Rightarrow>
          (let apiUrl = ''https://api.github.com/repos/'' @ owner repoInfo @ ''/'' @ repo repoInfo
           in ((case fetch apiUrl of
                  Rejected e \<Rightarrow> handle_thrown P e
                | Resolved r \<Rightarrow>
                    (case status_checks P repoInfo r of
                       Some env \<Rightarrow> env
                     | None \<Rightarrow>
                         (case body r of
                            Inl e \<Rightarrow> handle_thrown P e
                          | Inr d \<Rightarrow>
                              createSuccessResponse (now_iso P) (overviewData d) (Some apiUrl) None None))),
               [apiUrl])))"

record ReleaseData =
  tag_name :: string
  release_name :: "string option"
  release_body :: "string option"
  published_at :: "string option"
  prerelease :: bool
  draft :: bool
  html_url :: string

record ReleaseNotesData =
  releases :: "ReleaseData list"
  total_count :: nat

text \<open>The cursor of the next page, lines 84 to 92 of releases.ts.\<close>

definition nextCursor :: "string option \<Rightarrow> string option" where
  "nextCursor linkHeader =
     (case linkHeader of
        None \<Rightarrow> None
      | Some l \<Rightarrow>
          if l \<noteq> [] \<and> str_includes (''rel='' @ [dq] @ ''next'' @ [dq]) l
          then match_page_rel ''next'' l
          else None)"

text \<open>\<open>limit\<close> is a Number; the schema in front of the tool admits integers only.  The
  upstream record has the very fields of \<open>ReleaseData\<close>, which the tool copies one by
  one.\<close>

definition releaseNotes ::
  "platform \<Rightarrow> (string \<Rightarrow> ReleaseData list fetch_outcome) \<Rightarrow> string \<Rightarrow> int option
     \<Rightarrow> ReleaseNotesData ApiResponse \<times> string list" where
  "releaseNotes P fetch repoUrl limit_opt =
     (let limit = (case limit_opt of None \<Rightarrow> 5 | Some l \<Rightarrow> l) in
      case parseRepoUrl (newURL P) repoUrl of
        None \<Rightarrow> (invalid_url_response P repoUrl, [])
      | Some repoInfo \<Rightarrow>
          if limit < 1 \<or> limit > 100 then
            (createErrorResponse (now_iso P) INVALID_INPUT ''Limit must be between 1 and 100''
               [(''provided_limit'', JNumber limit)], [])
          else
            (let apiUrl = ''https://api.github.com/repos/'' @ owner repoInfo @ ''/'' @ repo repoInfo
                            @ ''/releases?per_page='' @ string_of_nat (nat limit)
             in ((case fetch apiUrl of
                    Rejected e \<Rightarrow> handle_thrown P e
                  | Resolved r \<Rightarrow>
                      (case status_checks P repoInfo r of
                         Some env \<Rightarrow> env
                       | None \<Rightarrow>
                           (case body r of
                              Inl e \<Rightarrow> handle_thrown P e
                            | Inr rels \<Rightarrow>
                                createSuccessResponse (now_iso P)
                                  \<lparr>releases = rels, total_count = length rels\<rparr>
                                  (Some apiUrl)
                                  (Some (if length rels = 0
                                         then [''No releases found for this repository''] else []))
                                  (nextCursor (headers r ''link''))))),
                 [apiUrl])))"

section \<open>The key-files tool (src/tools/files.ts)\<close>

definition DEFAULT_PATHS :: "string list" where
  "DEFAULT_PATHS = [''README.md'', ''LICENSE'', ''package.json'', ''pyproject.toml'']"

text \<open>\<open>size\<close> is \<open>content.length\<close>: the number of UTF-16 code units of the text.\<close>

record FileContent =
  path :: string
  content :: "utf16 option"
  fsize :: "nat option"
  encoding :: string
  error :: "string option"

definition fetchRawFile ::
  "(string \<Rightarrow> utf16 fetch_outcome) \<Rightarrow> string \<Rightarrow> string \<Rightarrow> string \<Rightarrow> string
     \<Rightarrow> FileContent \<times> string list" where
  "fetchRawFile fetch own rep branch p =
     (let url = ''https://raw.githubusercontent.com/'' @ own @ ''/'' @ rep @ ''/'' @ branch @ ''/'' @ p;
          failed = (\<lambda>msg. \<lparr>path = p, content = None, fsize = None, encoding = ''utf-8'',
                            error = Some msg\<rparr>);
          thrown_message = (\<lambda>e. case e of JsError nm msg \<Rightarrow> msg | NonError \<Rightarrow> ''Unknown error'')
      in ((case fetch url of
             Rejected e \<Rightarrow> failed (thrown_message e)
           | Resolved r \<Rightarrow>
               if status r = 404 then failed ''File not found''
               else if \<not> response_ok r then
                 failed (''HTTP '' @ string_of_nat (status r) @ '': '' @ statusText r)
               else (case body r of
                       Inl e \<Rightarrow> failed (thrown_message e)
                     | Inr text \<Rightarrow>
                         \<lparr>path = p, content = Some text, fsize = Some (length text),
                          encoding = ''utf-8'', error = None\<rparr>)),
          [url]))"

text \<open>The body of the repository resource here is its \<open>default_branch\<close> member, which the
  code allows to be missing.\<close>

definition getDefaultBranch ::
  "(string \<Rightarrow> string option fetch_outcome) \<Rightarrow> string \<Rightarrow> string \<Rightarrow> string option \<times> string list" where
  "getDefaultBranch fetch own rep =
     (let apiUrl = ''https://api.github.com/repos/'' @ own @ ''/'' @ rep
      in ((case fetch apiUrl of
             Rejected e \<Rightarrow> None
           | Resolved r \<Rightarrow>
               if \<not> response_ok r then None
               else (case body r of
                       Inl e \<Rightarrow> None
                     | Inr d \<Rightarrow> Some (case d of None \<Rightarrow> ''main'' | Some b \<Rightarrow> b))),
          [apiUrl]))"

record ExtractKeyFilesData =
  files :: "FileContent list"
  default_branch :: string

text \<open>\<open>paths && paths.length > 0 ? paths : DEFAULT_PATHS\<close>; an omitted argument is
  \<open>None\<close>.\<close>

definition filePaths :: "string list option \<Rightarrow> string list" where
  "filePaths paths =
     (case paths of None \<Rightarrow> DEFAULT_PATHS | Some ps \<Rightarrow> if length ps > 0 then ps else DEFAULT_PATHS)"

text \<open>The two warnings, lines 114 to 127.  \<open>f.error && ...\<close> holds for a non-empty error
  string.\<close>

definition file_warnings :: "FileContent list \<Rightarrow> string list" where
  "file_warnings fs =
     (let filesNotFound = filter (\<lambda>f. error f = Some ''File not found'') fs;
          filesWithErrors =
            filter (\<lambda>f. error f \<noteq> None \<and> error f \<noteq> Some [] \<and> error f \<noteq> Some ''File not found'') fs
      in (if length filesNotFound > 0
          then [''Files not found: '' @ join '', '' (map path filesNotFound)] else [])
         @ (if length filesWithErrors > 0
            then [''Errors fetching files: ''
                    @ join ''; '' (map (\<lambda>f. path f @ '': '' @ the (error f)) filesWithErrors)]
            else []))"

text \<open>No promise of \<open>fetchRawFile\<close> rejects, so \<open>Promise.all\<close> resolves and the \<open>catch\<close>
  clause of \<open>extractKeyFiles\<close> is never entered.  A branch name that is the empty string
  is falsy and is treated as no branch.\<close>

definition extractKeyFiles ::
  "platform \<Rightarrow> (string \<Rightarrow> string option fetch_outcome) \<Rightarrow> (string \<Rightarrow> utf16 fetch_outcome)
     \<Rightarrow> string \<Rightarrow> string list option \<Rightarrow> ExtractKeyFilesData ApiResponse \<times> string list" where
  "extractKeyFiles P fetch_api fetch_raw repoUrl paths =
     (case parseRepoUrl (newURL P) repoUrl of
        None \<Rightarrow> (invalid_url_response P repoUrl, [])
      | Some repoInfo \<Rightarrow>
          (let (defaultBranch, calls) = getDefaultBranch fetch_api (owner repoInfo) (repo repoInfo) in
           case defaultBranch of
             None \<Rightarrow>
               (createErrorResponse (now_iso P) UPSTREAM_ERROR
                  (''Could not determine default branch for '' @ owner repoInfo @ ''/'' @ repo repoInfo
                     @ ''. Repository may not exist or be private.'')
                  [(''owner'', JString (owner repoInfo)), (''repo'', JString (repo repoInfo))],
                calls)
           | Some branch \<Rightarrow>
               if branch = [] then
                 (createErrorResponse (now_iso P) UPSTREAM_ERROR
                    (''Could not determine default branch for '' @ owner repoInfo @ ''/'' @ repo repoInfo
                       @ ''. Repository may not exist or be private.'')
                    [(''owner'', JString (owner repoInfo)), (''repo'', JString (repo repoInfo))],
                  calls)
               else
                 (let results = map (fetchRawFile fetch_raw (owner repoInfo) (repo repoInfo) branch)
                                  (filePaths paths);
                      fs = map fst results
                  in (createSuccessResponse (now_iso P)
                        \<lparr>files = fs, default_branch = branch\<rparr>
                        (Some (''https://github.com/'' @ owner repoInfo @ ''/'' @ repo repoInfo))
                        (Some (file_warnings fs)) None,
                      calls @ concat (map snd results)))))"

text \<open>The byte length of a text, as section 4.5 of the specification words the size: the
  length of its UTF-8 encoding.  A surrogate pair encodes in four bytes, any other code
  unit from \<open>0x800\<close> on in three.\<close>

definition unit_bytes :: "16 word \<Rightarrow> nat" where
  "unit_bytes u = (if u < 0x80 then 1 else if u < 0x800 then 2 else 3)"

fun utf8_byte_length :: "utf16 \<Rightarrow> nat" where
  "utf8_byte_length [] = 0"
| "utf8_byte_length [u] = unit_bytes u"
| "utf8_byte_length (u # v # r) =
     (if 0xD800 \<le> u \<and> u < 0xDC00 \<and> 0xDC00 \<le> v \<and> v < 0xE000 then 4 + utf8_byte_length r
      else unit_bytes u + utf8_byte_length (v # r))"

section \<open>The activity-snapshot tool (src/unnamed/part_000, the module tools/activity)\<close>

record GitHubCommitResponse =
  sha :: string
  commit_message :: string
  commit_author_name :: string
  commit_author_date :: string

record GitHubPullResponse =
  pull_number :: int
  pull_state :: string

record GitHubContributorResponse =
  login :: string
  contributions :: int

record ActivitySnapshotData =
  last_commit_date :: "string option"
  last_commit_message :: "string option"
  open_issues_count :: int
  open_prs_count :: nat
  contributors_count :: nat
  watchers_count :: int
  has_wiki :: bool
  has_discussions :: bool

definition fetchRepoInfo ::
  "(string \<Rightarrow> GitHubRepoResponse fetch_outcome) \<Rightarrow> string \<Rightarrow> string
     \<Rightarrow> GitHubRepoResponse option \<times> string list" where
  "fetchRepoInfo fetch own rep =
     (let url = ''https://api.github.com/repos/'' @ own @ ''/'' @ rep
      in ((case fetch url of
             Rejected e \<Rightarrow> None
           | Resolved r \<Rightarrow>
               if \<not> response_ok r then None
               else (case body r of Inl e \<Rightarrow> None | Inr d \<Rightarrow> Some d)),
          [url]))"

definition fetchLatestCommit ::
  "(string \<Rightarrow> GitHubCommitResponse list fetch_outcome) \<Rightarrow> string \<Rightarrow> string
     \<Rightarrow> GitHubCommitResponse option \<times> string list" where
  "fetchLatestCommit fetch own rep =
     (let url = ''https://api.github.com/repos/'' @ own @ ''/'' @ rep @ ''/commits?per_page=1''
      in ((case fetch url of
             Rejected e \<Rightarrow> None
           | Resolved r \<Rightarrow>
               if \<not> response_ok r then None
               else (case body r of
                       Inl e \<Rightarrow> None
                     | Inr d \<Rightarrow> if length d > 0 then Some (d ! 0) else None)),
          [url]))"

text \<open>The count that \<open>fetchOpenPRsCount\<close> and \<open>fetchContributorsCount\<close> read off a settled
  call, in the same words in both functions (lines 40 to 63 and 65 to 86).\<close>

definition count_of_outcome :: "'a list fetch_outcome \<Rightarrow> nat option" where
  "count_of_outcome out =
     (case out of
        Rejected e \<Rightarrow> None
      | Resolved r \<Rightarrow>
          if \<not> response_ok r then None
          else (case (case headers r ''link'' of
                        None \<Rightarrow> None
                      | Some l \<Rightarrow> if l \<noteq> [] then match_page_rel ''last'' l else None) of
                  Some ds \<Rightarrow> Some (parseInt10 ds)
                | None \<Rightarrow> (case body r of Inl e \<Rightarrow> None | Inr d \<Rightarrow> Some (length d))))"

definition fetchOpenPRsCount ::
  "(string \<Rightarrow> GitHubPullResponse list fetch_outcome) \<Rightarrow> string \<Rightarrow> string
     \<Rightarrow> nat option \<times> string list" where
  "fetchOpenPRsCount fetch own rep =
     (let url = ''https://api.github.com/repos/'' @ own @ ''/'' @ rep @ ''/pulls?state=open&per_page=1''
      in (count_of_outcome (fetch url), [url]))"

definition fetchContributorsCount ::
  "(string \<Rightarrow> GitHubContributorResponse list fetch_outcome) \<Rightarrow> string \<Rightarrow> string
     \<Rightarrow> nat option \<times> string list" where
  "fetchContributorsCount fetch own rep =
     (let url = ''https://api.github.com/repos/'' @ own @ ''/'' @ rep
                  @ ''/contributors?per_page=1&anon=true''
      in (count_of_outcome (fetch url), [url]))"

text \<open>The four upstream calls of the snapshot, one per endpoint.\<close>

record activity_upstream =
  repo_fetch :: "string \<Rightarrow> GitHubRepoResponse fetch_outcome"
  commits_fetch :: "string \<Rightarrow> GitHubCommitResponse list fetch_outcome"
  pulls_fetch :: "string \<Rightarrow> GitHubPullResponse list fetch_outcome"
  contributors_fetch :: "string \<Rightarrow> GitHubContributorResponse list fetch_outcome"

text \<open>The part of \<open>activitySnapshot\<close> after \<open>Promise.all\<close>, lines 110 to 146.\<close>

definition merge_activity ::
  "platform \<Rightarrow> ParsedRepoInfo \<Rightarrow> GitHubRepoResponse option \<Rightarrow> GitHubCommitResponse option
     \<Rightarrow> nat option \<Rightarrow> nat option \<Rightarrow> ActivitySnapshotData ApiResponse" where
  "merge_activity P repoInfo repoData latestCommit openPRsCount contributorsCount =
     (case repoData of
        None \<Rightarrow>
          createErrorResponse (now_iso P) UPSTREAM_ERROR
            (''Could not fetch repository data for '' @ owner repoInfo @ ''/'' @ repo repoInfo
               @ ''. Repository may not exist or be private.'')
            [(''owner'', JString (owner repoInfo)), (''repo'', JString (repo repoInfo))]
      | Some rd \<Rightarrow>
          (let ws = (if openPRsCount = None then [''Could not fetch open PRs count''] else [])
                    @ (if contributorsCount = None then [''Could not fetch contributors count''] else [])
                    @ (if latestCommit = None then [''Could not fetch latest commit information''] else [])
           in createSuccessResponse (now_iso P)
                \<lparr>last_commit_date = map_option commit_author_date latestCommit,
                 last_commit_message = map_option commit_message latestCommit,
                 open_issues_count = gh_open_issues_count rd,
                 open_prs_count = (case openPRsCount of None \<Rightarrow> 0 | Some n \<Rightarrow> n),
                 contributors_count = (case contributorsCount of None \<Rightarrow> 0 | Some n \<Rightarrow> n),
                 watchers_count = gh_watchers_count rd,
                 has_wiki = gh_has_wiki rd,
                 has_discussions = gh_has_discussions rd\<rparr>
                (Some (''https://api.github.com/repos/'' @ owner repoInfo @ ''/'' @ repo repoInfo))
                (Some ws) None))"

definition activitySnapshot ::
  "platform \<Rightarrow> activity_upstream \<Rightarrow> string \<Rightarrow> ActivitySnapshotData ApiResponse \<times> string list" where
  "activitySnapshot P up repoUrl =
     (case parseRepoUrl (newURL P) repoUrl of
        None \<Rightarrow> (invalid_url_response P repoUrl, [])
      | Some repoInfo \<Rightarrow>
          (let (repoData, c1) = fetchRepoInfo (repo_fetch up) (owner repoInfo) (repo repoInfo);
               (latestCommit, c2) = fetchLatestCommit (commits_fetch up) (owner repoInfo) (repo repoInfo);
               (openPRsCount, c3) = fetchOpenPRsCount (pulls_fetch up) (owner repoInfo) (repo repoInfo);
               (contributorsCount, c4) =
                 fetchContributorsCount (contributors_fetch up) (owner repoInfo) (repo repoInfo)
           in (merge_activity P repoInfo repoData latestCommit openPRsCount contributorsCount,
               c1 @ c2 @ c3 @ c4)))"

section \<open>The rate-limited fetch (src/tools/overview.ts, lines 12 to 50)\<close>

text \<open>
  JavaScript runs one task at a time: a call of \<open>rateLimitedFetch\<close> runs from its start to
  its first \<open>await\<close> without interruption, and from the end of the timer to the dispatch
  of \<open>fetch\<close> likewise.  The state is the clock \<open>Date.now()\<close> in milliseconds, the
  module variable \<open>lastRequestTime\<close>, the timers set and not yet run (due time and
  caller, in the order they were set), and the dispatches so far (caller and time).
\<close>

record rl_state =
  clock :: nat
  lastRequestTime :: nat
  timers :: "(nat \<times> nat) list"
  dispatched :: "(nat \<times> nat) list"

text \<open>Line 25 and the call of \<open>fetch\<close>.\<close>

definition dispatch :: "nat \<Rightarrow> rl_state \<Rightarrow> rl_state" where
  "dispatch caller s =
     s\<lparr>lastRequestTime := clock s, dispatched := dispatched s @ [(caller, clock s)]\<rparr>"

text \<open>Lines 15 to 23: with \<open>requestDelayMs = D\<close>, either a timer is set and the caller
  suspends, or the caller goes on to the dispatch at once.\<close>

definition rateLimitedFetch_start :: "nat \<Rightarrow> nat \<Rightarrow> rl_state \<Rightarrow> rl_state" where
  "rateLimitedFetch_start D caller s =
     (let now = int (clock s);
          timeSinceLastRequest = now - int (lastRequestTime s)
      in if timeSinceLastRequest < int D
         then s\<lparr>timers := timers s @ [(nat (now + (int D - timeSinceLastRequest)), caller)]\<rparr>
         else dispatch caller s)"

text \<open>The event loop runs the timers in the order of their due times, timers due at the
  same time in the order they were set; the clock stands at the due time when a timer
  runs (or later, if it has already passed).\<close>

definition run_timers :: "rl_state \<Rightarrow> rl_state" where
  "run_timers s =
     foldl (\<lambda>st (due, caller). dispatch caller (st\<lparr>clock := max (clock st) due\<rparr>))
       (s\<lparr>timers := []\<rparr>) (sort_key fst (timers s))"

text \<open>\<open>n\<close> calls issued in one task, as \<open>Promise.all\<close> over a list of calls does, followed
  by the timers they set.\<close>

definition concurrent_calls :: "nat \<Rightarrow> nat \<Rightarrow> rl_state \<Rightarrow> rl_state" where
  "concurrent_calls D n s = run_timers (foldl (\<lambda>st c. rateLimitedFetch_start D c st) s [0..<n])"

definition dispatch_times :: "rl_state \<Rightarrow> nat list" where
  "dispatch_times s = map snd (dispatched s)"

text \<open>Successive dispatches at least \<open>D\<close> apart.\<close>

fun spaced :: "nat \<Rightarrow> nat list \<Rightarrow> bool" where
  "spaced D [] = True"
| "spaced D [t] = True"
| "spaced D (t # u # ts) = (t + D \<le> u \<and> spaced D (u # ts))"

section \<open>Notions of the specification\<close>

text \<open>The page that a pagination header gives for a relation, read the way RFC 8288
  builds the header: the entries are separated by commas; an entry is a URL between
  angle brackets followed by its parameters; the entry of the relation is the first one
  whose parameters hold \<open>rel="..."\<close>; its page is the value of the query parameter named
  \<open>page\<close> of its URL, wherever that parameter stands in the query.  (The URLs of GitHub's
  pages hold no comma.)\<close>

text \<open>The pieces of a string between the occurrences of a separator; the second
  argument holds the piece being read, last character first.\<close>

fun pieces :: "char \<Rightarrow> string \<Rightarrow> string \<Rightarrow> string list" where
  "pieces c acc [] = [rev acc]"
| "pieces c acc (x # xs) = (if x = c then rev acc # pieces c [] xs else pieces c (x # acc) xs)"

definition link_entry :: "string \<Rightarrow> string \<times> string" where
  "link_entry e =
     (let r = dropWhile (\<lambda>c. c \<noteq> CHR ''<'') e
      in (takeWhile (\<lambda>c. c \<noteq> CHR ''>'') (tl r), dropWhile (\<lambda>c. c \<noteq> CHR ''>'') r))"

definition query_param :: "string \<Rightarrow> string \<Rightarrow> string option" where
  "query_param nm u =
     (case filter (prefix (nm @ ''=''))
             (pieces CHR ''&'' [] (tl (dropWhile (\<lambda>c. c \<noteq> CHR ''?'') u))) of
        [] \<Rightarrow> None
      | p # ps \<Rightarrow> Some (drop (length nm + 1) p))"

definition rel_page :: "string \<Rightarrow> string \<Rightarrow> string option" where
  "rel_page rel l =
     (case filter (\<lambda>e. str_includes (''rel='' @ [dq] @ rel @ [dq]) (snd e))
             (map link_entry (pieces CHR '','' [] l)) of
        [] \<Rightarrow> None
      | e # es \<Rightarrow> query_param ''page'' (fst e))"

text \<open>The paths that a call of the key-files tool asks for: the four default names when
  the list is omitted or empty, the list itself otherwise.\<close>

fun requested_paths :: "string list option \<Rightarrow> string list" where
  "requested_paths None = [''README.md'', ''LICENSE'', ''package.json'', ''pyproject.toml'']"
| "requested_paths (Some []) = [''README.md'', ''LICENSE'', ''package.json'', ''pyproject.toml'']"
| "requested_paths (Some (p # ps)) = p # ps"

text \<open>An upstream call fails when it rejects (network error, timeout) or settles with a
  status outside 200 to 299.\<close>

fun failed :: "'b fetch_outcome \<Rightarrow> bool" where
  "failed (Rejected e) = True"
| "failed (Resolved r) = (\<not> response_ok r)"

section \<open>A platform and upstreams for examples\<close>

definition demo_platform :: platform where
  "demo_platform =
     \<lparr>newURL = https_URL, toISOString = (\<lambda>ms. ''t'' @ string_of_nat (nat ms)),
      now_iso = ''2024-06-15T14:30:00.000Z'', requestTimeoutMs = 30000\<rparr>"

definition respond :: "nat \<Rightarrow> string \<Rightarrow> (string \<times> string) list \<Rightarrow> thrown + 'b \<Rightarrow> 'b fetch_outcome" where
  "respond st txt hs b = Resolved \<lparr>status = st, statusText = txt, headers = map_of hs, body = b\<rparr>"

text \<open>Pagination headers: the one GitHub sends with the first of four pages of releases,
  and the two of the repository's test of the activity snapshot.\<close>

definition releases_link :: string where
  "releases_link =
     ''<https://api.github.com/repositories/1/releases?per_page=5&page=2>; rel='' @ [dq] @ ''next'' @ [dq]
     @ '', <https://api.github.com/repositories/1/releases?per_page=5&page=4>; rel='' @ [dq] @ ''last'' @ [dq]"

definition pulls_link :: string where
  "pulls_link = ''<https://api.github.com/repos/owner/repo/pulls?page=3>; rel='' @ [dq] @ ''last'' @ [dq]"

definition contributors_link :: string where
  "contributors_link =
     ''<https://api.github.com/repos/owner/repo/contributors?page=25>; rel='' @ [dq] @ ''last'' @ [dq]"

definition demo_repo :: GitHubRepoResponse where
  "demo_repo =
     \<lparr>gh_name = ''test-repo'', gh_full_name = ''owner/test-repo'', gh_description = None,
      gh_stargazers_count = 100, gh_forks_count = 7, gh_language = Some ''TypeScript'',
      gh_topics = None, gh_license_spdx_id = Some ''MIT'',
      gh_created_at = ''2024-01-01T00:00:00Z'', gh_updated_at = ''2024-06-15T00:00:00Z'',
      gh_default_branch = Some ''main'', gh_homepage = None,
      gh_open_issues_count = 15, gh_watchers_count = 100, gh_has_wiki = True,
      gh_has_discussions = True, gh_owner_login = ''owner'', gh_owner_avatar_url = ''a.png'',
      gh_owner_type = ''User''\<rparr>"

text \<open>The upstream of the repository's test of the activity snapshot: the four calls
  settle with status 200, the last two with a pagination header and one element.\<close>

definition demo_upstream :: activity_upstream where
  "demo_upstream =
     \<lparr>repo_fetch = (\<lambda>u. respond 200 ''OK'' [] (Inr demo_repo)),
      commits_fetch = (\<lambda>u. respond 200 ''OK'' []
         (Inr [\<lparr>sha = ''def456'', commit_message = ''fix: resolve bug in parser'',
                commit_author_name = ''Developer'', commit_author_date = ''2024-06-15T14:30:00Z''\<rparr>])),
      pulls_fetch = (\<lambda>u. respond 200 ''OK'' [(''link'', pulls_link)]
         (Inr [\<lparr>pull_number = 42, pull_state = ''open''\<rparr>])),
      contributors_fetch = (\<lambda>u. respond 200 ''OK'' [(''link'', contributors_link)]
         (Inr [\<lparr>login = ''contributor1'', contributions = 50\<rparr>]))\<rparr>"

abbreviation pulls_url :: "ParsedRepoInfo \<Rightarrow> string" where
  "pulls_url ri \<equiv> ''https://api.github.com/repos/'' @ owner ri @ ''/'' @ repo ri @ ''/pulls?state=open&per_page=1''"

abbreviation contributors_url :: "ParsedRepoInfo \<Rightarrow> string" where
  "contributors_url ri \<equiv> ''https://api.github.com/repos/'' @ owner ri @ ''/'' @ repo ri
                  @ ''/contributors?per_page=1&anon=true''"

abbreviation repo_url :: "ParsedRepoInfo \<Rightarrow> string" where
  "repo_url ri \<equiv> ''https://api.github.com/repos/'' @ owner ri @ ''/'' @ repo ri"

abbreviation commits_url :: "ParsedRepoInfo \<Rightarrow> string" where
  "commits_url ri \<equiv> ''https://api.github.com/repos/'' @ owner ri @ ''/'' @ repo ri @ ''/commits?per_page=1''"

text \<open>An upstream whose three auxiliary calls fail, each in its own way, and one whose
  repository resource is not found.\<close>

definition degraded_upstream :: activity_upstream where
  "degraded_upstream =
     \<lparr>repo_fetch = (\<lambda>u. respond 200 ''OK'' [] (Inr demo_repo)),
      commits_fetch = (\<lambda>u. Rejected (JsError ''TypeError'' ''fetch failed'')),
      pulls_fetch = (\<lambda>u. respond 500 ''Internal Server Error'' [] (Inr [])),
      contributors_fetch = (\<lambda>u. respond 403 ''Forbidden'' [(''link'', contributors_link)] (Inr []))\<rparr>"

definition missing_upstream :: activity_upstream where
  "missing_upstream = demo_upstream\<lparr>repo_fetch := (\<lambda>u. respond 404 ''Not Found'' [] (Inr demo_repo))\<rparr>"


text \<open>ASCII text as UTF-16 code units.\<close>

definition ascii :: "string \<Rightarrow> utf16" where
  "ascii s = map (\<lambda>c. of_nat (of_char c)) s"

text \<open>The upstream of section 8 of the specification for the key-files tool: the default
  branch is \<open>main\<close>, the README is there, every other file is not found.\<close>

definition branch_main :: "string \<Rightarrow> string option fetch_outcome" where
  "branch_main u = respond 200 ''OK'' [] (Inr (Some ''main''))"

definition readme_only :: "string \<Rightarrow> utf16 fetch_outcome" where
  "readme_only u =
     (if u = ''https://raw.githubusercontent.com/o/r/main/README.md''
      then respond 200 ''OK'' [] (Inr (ascii (''# Test Repo'' @ [CHR 0x0A] @ ''Description here'')))
      else respond 404 ''Not Found'' [] (Inr []))"

abbreviation raw_url :: "string \<Rightarrow> string \<Rightarrow> string \<Rightarrow> string \<Rightarrow> string" where
  "raw_url own rep branch p \<equiv>
     ''https://raw.githubusercontent.com/'' @ own @ ''/'' @ rep @ ''/'' @ branch @ ''/'' @ p"

abbreviation releases_url :: "ParsedRepoInfo \<Rightarrow> nat \<Rightarrow> string" where
  "releases_url ri n \<equiv>
     ''https://api.github.com/repos/'' @ owner ri @ ''/'' @ repo ri @ ''/releases?per_page='' @ string_of_nat n"

text \<open>Pagination headers whose URLs name the page before the page size, and an upstream
  of the activity snapshot that sends them: seven pages of open pull requests and
  twenty-five of contributors, one element on each page.\<close>

definition pulls_link_page_first :: string where
  "pulls_link_page_first =
     ''<https://api.github.com/repos/o/r/pulls?page=7&per_page=1>; rel='' @ [dq] @ ''last'' @ [dq]"

definition contributors_link_page_first :: string where
  "contributors_link_page_first =
     ''<https://api.github.com/repos/o/r/contributors?page=25&per_page=1&anon=true>; rel=''
       @ [dq] @ ''last'' @ [dq]"

definition releases_link_page_first :: string where
  "releases_link_page_first =
     ''<https://api.github.com/repos/o/r/releases?page=2&per_page=5>; rel='' @ [dq] @ ''next'' @ [dq]"

definition page_first_upstream :: activity_upstream where
  "page_first_upstream =
     demo_upstream
       \<lparr>pulls_fetch := (\<lambda>u. respond 200 ''OK'' [(''link'', pulls_link_page_first)]
                          (Inr [\<lparr>pull_number = 42, pull_state = ''open''\<rparr>])),
        contributors_fetch := (\<lambda>u. respond 200 ''OK'' [(''link'', contributors_link_page_first)]
                          (Inr [\<lparr>login = ''contributor1'', contributions = 50\<rparr>]))\<rparr>"

text \<open>The headers of a 403 response that reports an exhausted quota with a reset time
  that is not a number.\<close>

definition limited_bad_reset :: "(string \<times> string) list" where
  "limited_bad_reset = [(''x-ratelimit-remaining'', ''0''), (''x-ratelimit-reset'', ''abc'')]"

section \<open>Properties of the pagination patterns\<close>

lemma not_digit_gt: "\<not> is_digit CHR ''>''"
  by (simp add: is_digit_def)

lemma marker_tail_Cons: "marker_tail rel = CHR ''>'' # ''; rel='' @ [dq] @ rel @ [dq]"
  by (simp add: marker_tail_def)

lemma takeWhile_digits_tail:
  "list_all is_digit ds \<Longrightarrow> takeWhile is_digit (ds @ marker_tail rel @ post) = ds"
  by (induction ds) (simp_all add: marker_tail_Cons not_digit_gt)

lemma dropWhile_digits_tail:
  "list_all is_digit ds \<Longrightarrow> dropWhile is_digit (ds @ marker_tail rel @ post) = marker_tail rel @ post"
  by (induction ds) (simp_all add: marker_tail_Cons not_digit_gt)

lemma match_here_marker:
  assumes "ds \<noteq> []" "list_all is_digit ds"
  shows "match_here rel (''page='' @ ds @ marker_tail rel @ post) = Some ds"
  using assms takeWhile_digits_tail [OF assms(2), of rel post]
    dropWhile_digits_tail [OF assms(2), of rel post]
  by (simp add: match_here_def Let_def)

lemma match_here_Some:
  assumes "match_here rel s = Some ds"
  shows "ds \<noteq> [] \<and> list_all is_digit ds \<and> (\<exists>post. s = ''page='' @ ds @ marker_tail rel @ post)"
proof -
  from assms have p: "prefix ''page='' s"
    by (simp add: match_here_def split: if_splits)
  then obtain r where s: "s = ''page='' @ r"
    by (auto simp: prefix_def)
  from assms s have ds: "ds = takeWhile is_digit r" "ds \<noteq> []"
    and t: "prefix (marker_tail rel) (dropWhile is_digit r)"
    by (auto simp: match_here_def Let_def split: if_splits)
  from t obtain post where "dropWhile is_digit r = marker_tail rel @ post"
    by (auto simp: prefix_def)
  then have "r = ds @ marker_tail rel @ post"
    using takeWhile_dropWhile_id [of is_digit r] ds(1) by simp
  moreover have "list_all is_digit ds"
    using ds(1) by (simp add: list_all_iff) (meson set_takeWhileD)
  ultimately show ?thesis using s ds(2) by auto
qed

lemma rel_page_examples:
  "rel_page ''last'' pulls_link = Some ''3''"
  "rel_page ''last'' contributors_link = Some ''25''"
  "rel_page ''next'' releases_link = Some ''2''"
  "rel_page ''last'' pulls_link_page_first = Some ''7''"
  "rel_page ''last'' contributors_link_page_first = Some ''25''"
  "rel_page ''next'' releases_link_page_first = Some ''2''"
  by (simp_all add: rel_page_def pulls_link_def contributors_link_def releases_link_def
      pulls_link_page_first_def contributors_link_page_first_def releases_link_page_first_def
      link_entry_def query_param_def)

lemma match_examples:
  "match_page_rel ''last'' pulls_link = Some ''3''"
  "match_page_rel ''last'' contributors_link = Some ''25''"
  "match_page_rel ''last'' pulls_link_page_first = Some ''1''"
  "match_page_rel ''last'' contributors_link_page_first = None"
  unfolding pulls_link_def contributors_link_def pulls_link_page_first_def
    contributors_link_page_first_def
  by code_simp+

lemma links_not_empty:
  "pulls_link \<noteq> []" "contributors_link \<noteq> []" "pulls_link_page_first \<noteq> []"
  "contributors_link_page_first \<noteq> []"
  by (simp_all add: pulls_link_def contributors_link_def pulls_link_page_first_def
      contributors_link_page_first_def)

lemma parseInt10_examples: "parseInt10 ''3'' = 3" "parseInt10 ''25'' = 25" "parseInt10 ''1'' = 1"
  by (simp_all add: parseInt10_def digits_value_def digit_val_def)

section \<open>Properties of the repository-URL parser\<close>

lemma split_on_not_Nil: "split_on c s \<noteq> []"
  by (induction s) auto

lemma split_on_unfold:
  "split_on c s =
     (case dropWhile (\<lambda>x. x \<noteq> c) s of
        [] \<Rightarrow> [takeWhile (\<lambda>x. x \<noteq> c) s]
      | _ # r \<Rightarrow> takeWhile (\<lambda>x. x \<noteq> c) s # split_on c r)"
proof (induction s)
  case Nil
  then show ?case by simp
next
  case (Cons x xs)
  show ?case
  proof (cases "x = c")
    case True
    then show ?thesis by simp
  next
    case False
    show ?thesis
    proof (cases "dropWhile (\<lambda>x. x \<noteq> c) xs")
      case Nil
      then have "split_on c xs = [takeWhile (\<lambda>x. x \<noteq> c) xs]"
        using Cons.IH by (simp del: dropWhile_eq_Nil_conv)
      then show ?thesis using False Nil
        by (simp del: dropWhile_eq_Nil_conv)
    next
      case (Cons y r)
      then have "split_on c xs = takeWhile (\<lambda>x. x \<noteq> c) xs # split_on c r"
        using Cons.IH by simp
      then show ?thesis using False Cons by simp
    qed
  qed
qed

lemma filter_split_on_segments:
  "filter (\<lambda>s. s \<noteq> []) (split_on CHR ''/'' p) = path_segments p"
proof (induction p rule: path_segments.induct)
  case 1
  then show ?case by simp
next
  case (2 c cs)
  show ?case
  proof (cases "c = CHR ''/''")
    case True
    with 2 show ?thesis by simp
  next
    case False
    note IH = 2(2) [OF False]
    let ?D = "dropWhile (\<lambda>x. x \<noteq> CHR ''/'') cs"
    have step: "split_on CHR ''/'' (c # cs) =
        takeWhile (\<lambda>x. x \<noteq> CHR ''/'') (c # cs) # (case ?D of [] \<Rightarrow> [] | _ # r \<Rightarrow> split_on CHR ''/'' r)"
    proof (cases ?D)
      case Nil
      then show ?thesis using False
        by (subst split_on_unfold) (simp del: dropWhile_eq_Nil_conv)
    next
      case (Cons y r)
      then show ?thesis using False
        by (subst split_on_unfold) simp
    qed
    have rest: "filter (\<lambda>s. s \<noteq> []) (case ?D of [] \<Rightarrow> [] | _ # r \<Rightarrow> split_on CHR ''/'' r)
        = path_segments ?D"
    proof (cases ?D)
      case Nil
      then show ?thesis by (simp del: dropWhile_eq_Nil_conv)
    next
      case (Cons y r)
      then have "y = CHR ''/''"
        using hd_dropWhile [of "\<lambda>x. x \<noteq> CHR ''/''" cs] by auto
      then show ?thesis using IH Cons by simp
    qed
    show ?thesis
      using False by (simp only: step filter.simps rest path_segments.simps) simp
  qed
qed

lemma replace_git_suffix_stripped: "git_stripped s (replace_git_suffix s)"
  by (auto simp: git_stripped_def replace_git_suffix_def suffix_def)

text \<open>
  Claim C7.  The parser returns a reference exactly when the string parses as a URL whose
  host is \<open>github.com\<close> or \<open>www.github.com\<close> and whose path has at least two non-empty
  segments; the owner is then the first segment and the repository the second one with
  a trailing \<open>.git\<close> stripped, later segments being ignored.  With a URL constructor that
  reads the three example strings as the platform does, \<open>https://github.com/a/b.git\<close> and
  \<open>https://github.com/a/b\<close> both give owner \<open>a\<close> and repository \<open>b\<close>, and
  \<open>https://github.com/a\<close> gives no reference.
\<close>

lemma parseRepoUrl_None_iff:
  "(parseRepoUrl URL u = None) =
     (\<not> (\<exists>p. URL u = Some p \<and> hostname p \<in> {''github.com'', ''www.github.com''}
            \<and> 2 \<le> length (path_segments (pathname p))))"
  by (auto simp: parseRepoUrl_def filter_split_on_segments Let_def split: option.splits)

lemma parseRepoUrl_Some:
  assumes "URL u = Some p" "hostname p \<in> {''github.com'', ''www.github.com''}"
    "2 \<le> length (path_segments (pathname p))"
  shows "\<exists>r. parseRepoUrl URL u = Some \<lparr>owner = path_segments (pathname p) ! 0, repo = r\<rparr>
         \<and> git_stripped (path_segments (pathname p) ! 1) r"
proof -
  from assms have "parseRepoUrl URL u =
      Some \<lparr>owner = path_segments (pathname p) ! 0,
            repo = replace_git_suffix (path_segments (pathname p) ! 1)\<rparr>"
    by (auto simp: parseRepoUrl_def filter_split_on_segments Let_def)
  then show ?thesis
    using replace_git_suffix_stripped by blast
qed

lemma parseRepoUrl_examples:
  assumes "URL ''https://github.com/a/b.git'' = Some \<lparr>hostname = ''github.com'', pathname = ''/a/b.git''\<rparr>"
    "URL ''https://github.com/a/b'' = Some \<lparr>hostname = ''github.com'', pathname = ''/a/b''\<rparr>"
    "URL ''https://github.com/a'' = Some \<lparr>hostname = ''github.com'', pathname = ''/a''\<rparr>"
  shows "parseRepoUrl URL ''https://github.com/a/b.git'' = Some \<lparr>owner = ''a'', repo = ''b''\<rparr>
     \<and> parseRepoUrl URL ''https://github.com/a/b'' = Some \<lparr>owner = ''a'', repo = ''b''\<rparr>
     \<and> parseRepoUrl URL ''https://github.com/a'' = None"
  using assms by (simp add: parseRepoUrl_def replace_git_suffix_def suffix_def)

theorem parseRepoUrl_contract:
  "((parseRepoUrl URL u = None) =
     (\<not> (\<exists>p. URL u = Some p \<and> hostname p \<in> {''github.com'', ''www.github.com''}
            \<and> 2 \<le> length (path_segments (pathname p)))))
   \<and> (\<forall>p. URL u = Some p \<and> hostname p \<in> {''github.com'', ''www.github.com''}
            \<and> 2 \<le> length (path_segments (pathname p)) \<longrightarrow>
        (\<exists>r. parseRepoUrl URL u = Some \<lparr>owner = path_segments (pathname p) ! 0, repo = r\<rparr>
            \<and> git_stripped (path_segments (pathname p) ! 1) r))
   \<and> (URL ''https://github.com/a/b.git'' = Some \<lparr>hostname = ''github.com'', pathname = ''/a/b.git''\<rparr>
        \<and> URL ''https://github.com/a/b'' = Some \<lparr>hostname = ''github.com'', pathname = ''/a/b''\<rparr>
        \<and> URL ''https://github.com/a'' = Some \<lparr>hostname = ''github.com'', pathname = ''/a''\<rparr> \<longrightarrow>
      parseRepoUrl URL ''https://github.com/a/b.git'' = Some \<lparr>owner = ''a'', repo = ''b''\<rparr>
      \<and> parseRepoUrl URL ''https://github.com/a/b'' = Some \<lparr>owner = ''a'', repo = ''b''\<rparr>
      \<and> parseRepoUrl URL ''https://github.com/a'' = None)"
  using parseRepoUrl_None_iff [of URL u] parseRepoUrl_Some [of URL u] parseRepoUrl_examples [of URL]
  by blast

theorem parseRepoUrl_contract_witness:
  "https_URL ''https://www.github.com/o/r.git/tree/main''
     = Some \<lparr>hostname = ''www.github.com'', pathname = ''/o/r.git/tree/main''\<rparr>
   \<and> path_segments ''/o/r.git/tree/main'' = [''o'', ''r.git'', ''tree'', ''main'']
   \<and> (\<exists>r. parseRepoUrl https_URL ''https://www.github.com/o/r.git/tree/main''
            = Some \<lparr>owner = ''o'', repo = r\<rparr> \<and> git_stripped ''r.git'' r)
   \<and> parseRepoUrl https_URL ''https://github.com/a/b.git'' = Some \<lparr>owner = ''a'', repo = ''b''\<rparr>
   \<and> parseRepoUrl https_URL ''https://github.com/a/b'' = Some \<lparr>owner = ''a'', repo = ''b''\<rparr>
   \<and> parseRepoUrl https_URL ''https://github.com/a'' = None"
proof -
  have u: "https_URL ''https://www.github.com/o/r.git/tree/main''
     = Some \<lparr>hostname = ''www.github.com'', pathname = ''/o/r.git/tree/main''\<rparr>"
    by (simp add: https_URL_def)
  have segs: "path_segments ''/o/r.git/tree/main'' = [''o'', ''r.git'', ''tree'', ''main'']"
    by simp
  have ex: "https_URL ''https://github.com/a/b.git'' = Some \<lparr>hostname = ''github.com'', pathname = ''/a/b.git''\<rparr>
    \<and> https_URL ''https://github.com/a/b'' = Some \<lparr>hostname = ''github.com'', pathname = ''/a/b''\<rparr>
    \<and> https_URL ''https://github.com/a'' = Some \<lparr>hostname = ''github.com'', pathname = ''/a''\<rparr>"
    by (simp add: https_URL_def)
  note c = parseRepoUrl_contract [of https_URL "''https://www.github.com/o/r.git/tree/main''"]
  have "\<exists>r. parseRepoUrl https_URL ''https://www.github.com/o/r.git/tree/main''
            = Some \<lparr>owner = ''o'', repo = r\<rparr> \<and> git_stripped ''r.git'' r"
    using c [THEN conjunct2, THEN conjunct1, THEN spec, THEN mp, of
        "\<lparr>hostname = ''www.github.com'', pathname = ''/o/r.git/tree/main''\<rparr>"] u segs
    by simp
  then show ?thesis
    using u segs c [THEN conjunct2, THEN conjunct2, THEN mp, OF ex] by simp
qed

section \<open>Properties of the release-notes tool\<close>

lemma demo_parse:
  "parseRepoUrl (newURL demo_platform) ''https://github.com/o/r'' = Some \<lparr>owner = ''o'', repo = ''r''\<rparr>"
  by (simp add: demo_platform_def https_URL_def parseRepoUrl_def replace_git_suffix_def suffix_def)

lemma nextCursor_examples:
  "nextCursor (Some releases_link) = Some ''2''"
  "nextCursor (Some releases_link_page_first) = Some ''5''"
  unfolding nextCursor_def releases_link_def releases_link_page_first_def
  by code_simp+

text \<open>On the header that GitHub sends for the releases the cursor is the next page.\<close>

lemma next_cursor_github_header:
  "meta_next_cursor
     (fst (releaseNotes demo_platform (\<lambda>u. respond 200 ''OK'' [(''link'', releases_link)] (Inr []))
             ''https://github.com/o/r'' None)) = Some ''2''"
  using demo_parse
  by (simp add: releaseNotes_def Let_def respond_def status_checks_def response_ok_def
      createSuccessResponse_def nextCursor_examples del: string_of_nat.simps)

text \<open>
  Claim C8 fails on the code.  The release-notes tool, called without a limit, receives a
  200 response whose \<open>Link\<close> header is \<open><https://api.github.com/repos/o/r/releases?page=2&per_page=5>; rel="next"\<close>:
  a further page exists and it is page 2.  The envelope is a success and its
  \<open>next_cursor\<close> is \<open>5\<close>, the page size: the pattern \<open>page=(\d+)>; rel="next"\<close> matches inside
  \<open>per_page=5\<close>.
\<close>

theorem next_cursor_takes_per_page:
  "rel_page ''next'' releases_link_page_first = Some ''2''
   \<and> ok (fst (releaseNotes demo_platform
              (\<lambda>u. respond 200 ''OK'' [(''link'', releases_link_page_first)] (Inr []))
              ''https://github.com/o/r'' None))
   \<and> meta_next_cursor
        (fst (releaseNotes demo_platform
                (\<lambda>u. respond 200 ''OK'' [(''link'', releases_link_page_first)] (Inr []))
                ''https://github.com/o/r'' None)) = Some ''5''"
  using demo_parse
  by (simp add: releaseNotes_def Let_def respond_def status_checks_def response_ok_def
      createSuccessResponse_def nextCursor_examples rel_page_examples del: string_of_nat.simps)

section \<open>Properties of the activity-snapshot tool\<close>

lemma activitySnapshot_merge:
  assumes "parseRepoUrl (newURL P) u = Some ri"
  shows "fst (activitySnapshot P up u) =
     merge_activity P ri
       (fst (fetchRepoInfo (repo_fetch up) (owner ri) (repo ri)))
       (fst (fetchLatestCommit (commits_fetch up) (owner ri) (repo ri)))
       (fst (fetchOpenPRsCount (pulls_fetch up) (owner ri) (repo ri)))
       (fst (fetchContributorsCount (contributors_fetch up) (owner ri) (repo ri)))"
  using assms by (simp add: activitySnapshot_def split_def Let_def)

lemma merge_activity_data:
  "response_data (merge_activity P ri (Some rd) lc pr cc) =
     Some \<lparr>last_commit_date = map_option commit_author_date lc,
           last_commit_message = map_option commit_message lc,
           open_issues_count = gh_open_issues_count rd,
           open_prs_count = (case pr of None \<Rightarrow> 0 | Some n \<Rightarrow> n),
           contributors_count = (case cc of None \<Rightarrow> 0 | Some n \<Rightarrow> n),
           watchers_count = gh_watchers_count rd,
           has_wiki = gh_has_wiki rd,
           has_discussions = gh_has_discussions rd\<rparr>"
  by (simp add: merge_activity_def createSuccessResponse_def)

lemma demo_repo_fetched:
  "fst (fetchRepoInfo (\<lambda>u. respond 200 ''OK'' [] (Inr demo_repo)) own rep) = Some demo_repo"
  by (simp add: fetchRepoInfo_def respond_def response_ok_def)

text \<open>On the headers of the repository's test the counts are the last pages, 3 and 25.\<close>

lemma activity_counts_test_headers:
  "fst (fetchOpenPRsCount (pulls_fetch demo_upstream) ''o'' ''r'') = Some 3
   \<and> fst (fetchContributorsCount (contributors_fetch demo_upstream) ''o'' ''r'') = Some 25
   \<and> map_option open_prs_count
        (response_data (fst (activitySnapshot demo_platform demo_upstream ''https://github.com/o/r'')))
       = Some 3
   \<and> map_option contributors_count
        (response_data (fst (activitySnapshot demo_platform demo_upstream ''https://github.com/o/r'')))
       = Some 25"
proof -
  have p: "fst (fetchOpenPRsCount (pulls_fetch demo_upstream) ''o'' ''r'') = Some 3"
    by (simp add: fetchOpenPRsCount_def demo_upstream_def respond_def count_of_outcome_def
        response_ok_def match_examples parseInt10_examples links_not_empty)
  have c: "fst (fetchContributorsCount (contributors_fetch demo_upstream) ''o'' ''r'') = Some 25"
    by (simp add: fetchContributorsCount_def demo_upstream_def respond_def count_of_outcome_def
        response_ok_def match_examples parseInt10_examples links_not_empty)
  have r: "fst (fetchRepoInfo (repo_fetch demo_upstream) ''o'' ''r'') = Some demo_repo"
    by (simp add: demo_upstream_def demo_repo_fetched)
  have m: "fst (activitySnapshot demo_platform demo_upstream ''https://github.com/o/r'')
      = merge_activity demo_platform \<lparr>owner = ''o'', repo = ''r''\<rparr> (Some demo_repo)
          (fst (fetchLatestCommit (commits_fetch demo_upstream) ''o'' ''r'')) (Some 3) (Some 25)"
    using activitySnapshot_merge [OF demo_parse, of demo_upstream] p c r by simp
  show ?thesis
    by (simp only: p c m merge_activity_data) simp
qed

text \<open>
  Claim C1 fails on the code.  The snapshot receives, with status 200 and one element
  each, the \<open>Link\<close> header \<open><https://api.github.com/repos/o/r/pulls?page=7&per_page=1>; rel="last"\<close>
  for the open pull requests and
  \<open><https://api.github.com/repos/o/r/contributors?page=25&per_page=1&anon=true>; rel="last"\<close>
  for the contributors: the last pages are 7 and 25.  Both counts of the record are 1:
  for the pull requests the pattern \<open>page=(\d+)>; rel="last"\<close> matches inside
  \<open>per_page=1\<close>, for the contributors it matches nowhere and the length of the array is
  taken.
\<close>

theorem open_prs_count_takes_per_page:
  "rel_page ''last'' pulls_link_page_first = Some ''7''
   \<and> fst (fetchOpenPRsCount (pulls_fetch page_first_upstream) ''o'' ''r'') = Some 1
   \<and> rel_page ''last'' contributors_link_page_first = Some ''25''
   \<and> fst (fetchContributorsCount (contributors_fetch page_first_upstream) ''o'' ''r'') = Some 1
   \<and> map_option open_prs_count
        (response_data (fst (activitySnapshot demo_platform page_first_upstream ''https://github.com/o/r'')))
       = Some 1
   \<and> map_option contributors_count
        (response_data (fst (activitySnapshot demo_platform page_first_upstream ''https://github.com/o/r'')))
       = Some 1"
proof -
  have p: "fst (fetchOpenPRsCount (pulls_fetch page_first_upstream) ''o'' ''r'') = Some 1"
    by (simp add: fetchOpenPRsCount_def page_first_upstream_def respond_def count_of_outcome_def
        response_ok_def match_examples parseInt10_examples links_not_empty)
  have c: "fst (fetchContributorsCount (contributors_fetch page_first_upstream) ''o'' ''r'') = Some 1"
    by (simp add: fetchContributorsCount_def page_first_upstream_def respond_def count_of_outcome_def
        response_ok_def match_examples links_not_empty)
  have r: "fst (fetchRepoInfo (repo_fetch page_first_upstream) ''o'' ''r'') = Some demo_repo"
    by (simp add: page_first_upstream_def demo_upstream_def demo_repo_fetched)
  have m: "fst (activitySnapshot demo_platform page_first_upstream ''https://github.com/o/r'')
      = merge_activity demo_platform \<lparr>owner = ''o'', repo = ''r''\<rparr> (Some demo_repo)
          (fst (fetchLatestCommit (commits_fetch page_first_upstream) ''o'' ''r'')) (Some 1) (Some 1)"
    using activitySnapshot_merge [OF demo_parse, of page_first_upstream] p c r by simp
  show ?thesis
    by (simp only: p c m merge_activity_data rel_page_examples) simp
qed

lemma failed_fetchRepoInfo: "failed (fetch (repo_url ri)) \<Longrightarrow> fst (fetchRepoInfo fetch (owner ri) (repo ri)) = None"
  by (cases "fetch (repo_url ri)") (simp_all add: fetchRepoInfo_def)

lemma failed_fetchLatestCommit:
  "failed (fetch (commits_url ri)) \<Longrightarrow> fst (fetchLatestCommit fetch (owner ri) (repo ri)) = None"
  by (cases "fetch (commits_url ri)") (simp_all add: fetchLatestCommit_def)

lemma failed_count: "failed out \<Longrightarrow> count_of_outcome out = None"
  by (cases out) (simp_all add: count_of_outcome_def)

lemma failed_fetchOpenPRsCount:
  "failed (fetch (pulls_url ri)) \<Longrightarrow> fst (fetchOpenPRsCount fetch (owner ri) (repo ri)) = None"
  by (simp add: fetchOpenPRsCount_def failed_count)

lemma failed_fetchContributorsCount:
  "failed (fetch (contributors_url ri)) \<Longrightarrow> fst (fetchContributorsCount fetch (owner ri) (repo ri)) = None"
  by (simp add: fetchContributorsCount_def failed_count)

lemma merge_activity_None:
  "error_code (merge_activity P ri None lc pr cc) = Some UPSTREAM_ERROR"
  "\<not> ok (merge_activity P ri None lc pr cc)"
  by (simp_all add: merge_activity_def createErrorResponse_def)

lemma merge_activity_Some:
  "ok (merge_activity P ri (Some rd) lc pr cc)"
  "meta_warnings (merge_activity P ri (Some rd) lc pr cc) =
     (if pr = None then [''Could not fetch open PRs count''] else [])
     @ (if cc = None then [''Could not fetch contributors count''] else [])
     @ (if lc = None then [''Could not fetch latest commit information''] else [])"
  by (simp_all add: merge_activity_def createSuccessResponse_def)

text \<open>
  Claim C5.  With a repository URL that parses: when the call for the repository metadata
  fails, the snapshot is an error envelope with code \<open>UPSTREAM_ERROR\<close>.  Otherwise, whatever
  the three auxiliary calls do, the envelope is a success; a failed call for the latest
  commit leaves the commit date and message \<open>null\<close>, a failed call for a count leaves the
  count \<open>0\<close>; and the warnings are exactly one for each auxiliary result that is missing.
\<close>

theorem activitySnapshot_degrades:
  assumes "parseRepoUrl (newURL P) u = Some ri"
  shows
   "(failed (repo_fetch up (repo_url ri)) \<longrightarrow>
       error_code (fst (activitySnapshot P up u)) = Some UPSTREAM_ERROR
       \<and> \<not> ok (fst (activitySnapshot P up u)))
    \<and> (failed (commits_fetch up (commits_url ri)) \<longrightarrow>
         fst (fetchLatestCommit (commits_fetch up) (owner ri) (repo ri)) = None)
    \<and> (failed (pulls_fetch up (pulls_url ri)) \<longrightarrow>
         fst (fetchOpenPRsCount (pulls_fetch up) (owner ri) (repo ri)) = None)
    \<and> (failed (contributors_fetch up (contributors_url ri)) \<longrightarrow>
         fst (fetchContributorsCount (contributors_fetch up) (owner ri) (repo ri)) = None)
    \<and> (fst (fetchRepoInfo (repo_fetch up) (owner ri) (repo ri)) = None \<longrightarrow>
         error_code (fst (activitySnapshot P up u)) = Some UPSTREAM_ERROR)
    \<and> (fst (fetchRepoInfo (repo_fetch up) (owner ri) (repo ri)) \<noteq> None \<longrightarrow>
         ok (fst (activitySnapshot P up u))
         \<and> (\<exists>d. response_data (fst (activitySnapshot P up u)) = Some d
              \<and> last_commit_date d
                  = map_option commit_author_date (fst (fetchLatestCommit (commits_fetch up) (owner ri) (repo ri)))
              \<and> last_commit_message d
                  = map_option commit_message (fst (fetchLatestCommit (commits_fetch up) (owner ri) (repo ri)))
              \<and> open_prs_count d
                  = (case fst (fetchOpenPRsCount (pulls_fetch up) (owner ri) (repo ri)) of
                       None \<Rightarrow> 0 | Some n \<Rightarrow> n)
              \<and> contributors_count d
                  = (case fst (fetchContributorsCount (contributors_fetch up) (owner ri) (repo ri)) of
                       None \<Rightarrow> 0 | Some n \<Rightarrow> n))
         \<and> meta_warnings (fst (activitySnapshot P up u))
             = (if fst (fetchOpenPRsCount (pulls_fetch up) (owner ri) (repo ri)) = None
                then [''Could not fetch open PRs count''] else [])
               @ (if fst (fetchContributorsCount (contributors_fetch up) (owner ri) (repo ri)) = None
                  then [''Could not fetch contributors count''] else [])
               @ (if fst (fetchLatestCommit (commits_fetch up) (owner ri) (repo ri)) = None
                  then [''Could not fetch latest commit information''] else [])
         \<and> length (meta_warnings (fst (activitySnapshot P up u)))
             = (if fst (fetchOpenPRsCount (pulls_fetch up) (owner ri) (repo ri)) = None then 1 else 0)
               + (if fst (fetchContributorsCount (contributors_fetch up) (owner ri) (repo ri)) = None
                  then 1 else 0)
               + (if fst (fetchLatestCommit (commits_fetch up) (owner ri) (repo ri)) = None then 1 else 0))"
proof -
  note m = activitySnapshot_merge [OF assms, of up]
  let ?rd = "fst (fetchRepoInfo (repo_fetch up) (owner ri) (repo ri))"
  have 1: "failed (repo_fetch up (repo_url ri)) \<longrightarrow>
       error_code (fst (activitySnapshot P up u)) = Some UPSTREAM_ERROR
       \<and> \<not> ok (fst (activitySnapshot P up u))"
    by (simp add: m failed_fetchRepoInfo merge_activity_None)
  have 5: "?rd = None \<longrightarrow> error_code (fst (activitySnapshot P up u)) = Some UPSTREAM_ERROR"
    by (simp add: m merge_activity_None)
  have 6: "?rd \<noteq> None \<longrightarrow>
         ok (fst (activitySnapshot P up u))
         \<and> (\<exists>d. response_data (fst (activitySnapshot P up u)) = Some d
              \<and> last_commit_date d
                  = map_option commit_author_date (fst (fetchLatestCommit (commits_fetch up) (owner ri) (repo ri)))
              \<and> last_commit_message d
                  = map_option commit_message (fst (fetchLatestCommit (commits_fetch up) (owner ri) (repo ri)))
              \<and> open_prs_count d
                  = (case fst (fetchOpenPRsCount (pulls_fetch up) (owner ri) (repo ri)) of
                       None \<Rightarrow> 0 | Some n \<Rightarrow> n)
              \<and> contributors_count d
                  = (case fst (fetchContributorsCount (contributors_fetch up) (owner ri) (repo ri)) of
                       None \<Rightarrow> 0 | Some n \<Rightarrow> n))
         \<and> meta_warnings (fst (activitySnapshot P up u))
             = (if fst (fetchOpenPRsCount (pulls_fetch up) (owner ri) (repo ri)) = None
                then [''Could not fetch open PRs count''] else [])
               @ (if fst (fetchContributorsCount (contributors_fetch up) (owner ri) (repo ri)) = None
                  then [''Could not fetch contributors count''] else [])
               @ (if fst (fetchLatestCommit (commits_fetch up) (owner ri) (repo ri)) = None
                  then [''Could not fetch latest commit information''] else [])
         \<and> length (meta_warnings (fst (activitySnapshot P up u)))
             = (if fst (fetchOpenPRsCount (pulls_fetch up) (owner ri) (repo ri)) = None then 1 else 0)
               + (if fst (fetchContributorsCount (contributors_fetch up) (owner ri) (repo ri)) = None
                  then 1 else 0)
               + (if fst (fetchLatestCommit (commits_fetch up) (owner ri) (repo ri)) = None then 1 else 0)"
  proof
    assume "?rd \<noteq> None"
    then obtain rd where rd: "?rd = Some rd" by blast
    show "ok (fst (activitySnapshot P up u))
         \<and> (\<exists>d. response_data (fst (activitySnapshot P up u)) = Some d
              \<and> last_commit_date d
                  = map_option commit_author_date (fst (fetchLatestCommit (commits_fetch up) (owner ri) (repo ri)))
              \<and> last_commit_message d
                  = map_option commit_message (fst (fetchLatestCommit (commits_fetch up) (owner ri) (repo ri)))
              \<and> open_prs_count d
                  = (case fst (fetchOpenPRsCount (pulls_fetch up) (owner ri) (repo ri)) of
                       None \<Rightarrow> 0 | Some n \<Rightarrow> n)
              \<and> contributors_count d
                  = (case fst (fetchContributorsCount (contributors_fetch up) (owner ri) (repo ri)) of
                       None \<Rightarrow> 0 | Some n \<Rightarrow> n))
         \<and> meta_warnings (fst (activitySnapshot P up u))
             = (if fst (fetchOpenPRsCount (pulls_fetch up) (owner ri) (repo ri)) = None
                then [''Could not fetch open PRs count''] else [])
               @ (if fst (fetchContributorsCount (contributors_fetch up) (owner ri) (repo ri)) = None
                  then [''Could not fetch contributors count''] else [])
               @ (if fst (fetchLatestCommit (commits_fetch up) (owner ri) (repo ri)) = None
                  then [''Could not fetch latest commit information''] else [])
         \<and> length (meta_warnings (fst (activitySnapshot P up u)))
             = (if fst (fetchOpenPRsCount (pulls_fetch up) (owner ri) (repo ri)) = None then 1 else 0)
               + (if fst (fetchContributorsCount (contributors_fetch up) (owner ri) (repo ri)) = None
                  then 1 else 0)
               + (if fst (fetchLatestCommit (commits_fetch up) (owner ri) (repo ri)) = None then 1 else 0)"
      unfolding m rd
      by (simp only: merge_activity_Some merge_activity_data) simp
  qed
  show ?thesis
    using 1 5 6 failed_fetchLatestCommit [of "commits_fetch up" ri]
      failed_fetchOpenPRsCount [of "pulls_fetch up" ri]
      failed_fetchContributorsCount [of "contributors_fetch up" ri]
    by (intro conjI impI) blast+
qed

theorem activitySnapshot_degrades_witness:
  "parseRepoUrl (newURL demo_platform) ''https://github.com/o/r'' = Some \<lparr>owner = ''o'', repo = ''r''\<rparr>
   \<and> failed (commits_fetch degraded_upstream (commits_url \<lparr>owner = ''o'', repo = ''r''\<rparr>))
   \<and> failed (pulls_fetch degraded_upstream (pulls_url \<lparr>owner = ''o'', repo = ''r''\<rparr>))
   \<and> failed (contributors_fetch degraded_upstream (contributors_url \<lparr>owner = ''o'', repo = ''r''\<rparr>))
   \<and> ok (fst (activitySnapshot demo_platform degraded_upstream ''https://github.com/o/r''))
   \<and> (\<exists>d. response_data (fst (activitySnapshot demo_platform degraded_upstream ''https://github.com/o/r''))
            = Some d
          \<and> last_commit_date d = None \<and> last_commit_message d = None
          \<and> open_prs_count d = 0 \<and> contributors_count d = 0)
   \<and> meta_warnings (fst (activitySnapshot demo_platform degraded_upstream ''https://github.com/o/r''))
       = [''Could not fetch open PRs count'', ''Could not fetch contributors count'',
          ''Could not fetch latest commit information'']
   \<and> failed (repo_fetch missing_upstream (repo_url \<lparr>owner = ''o'', repo = ''r''\<rparr>))
   \<and> error_code (fst (activitySnapshot demo_platform missing_upstream ''https://github.com/o/r''))
       = Some UPSTREAM_ERROR
   \<and> \<not> ok (fst (activitySnapshot demo_platform missing_upstream ''https://github.com/o/r''))"
proof -
  let ?ri = "\<lparr>owner = ''o'', repo = ''r''\<rparr>"
  note T = activitySnapshot_degrades [OF demo_parse, of degraded_upstream]
  note M = activitySnapshot_degrades [OF demo_parse, of missing_upstream]
  have fl: "failed (commits_fetch degraded_upstream (commits_url ?ri))"
    and fp: "failed (pulls_fetch degraded_upstream (pulls_url ?ri))"
    and fc: "failed (contributors_fetch degraded_upstream (contributors_url ?ri))"
    by (simp_all add: degraded_upstream_def respond_def response_ok_def)
  have fr: "failed (repo_fetch missing_upstream (repo_url ?ri))"
    by (simp add: missing_upstream_def respond_def response_ok_def)
  have lc: "fst (fetchLatestCommit (commits_fetch degraded_upstream) (owner ?ri) (repo ?ri)) = None"
    by (rule T [THEN conjunct2, THEN conjunct1, THEN mp, OF fl])
  have pr: "fst (fetchOpenPRsCount (pulls_fetch degraded_upstream) (owner ?ri) (repo ?ri)) = None"
    by (rule T [THEN conjunct2, THEN conjunct2, THEN conjunct1, THEN mp, OF fp])
  have cc: "fst (fetchContributorsCount (contributors_fetch degraded_upstream) (owner ?ri) (repo ?ri)) = None"
    by (rule T [THEN conjunct2, THEN conjunct2, THEN conjunct2, THEN conjunct1, THEN mp, OF fc])
  have rd: "fst (fetchRepoInfo (repo_fetch degraded_upstream) (owner ?ri) (repo ?ri)) \<noteq> None"
    by (simp add: fetchRepoInfo_def degraded_upstream_def respond_def response_ok_def)
  note S = T [THEN conjunct2, THEN conjunct2, THEN conjunct2, THEN conjunct2, THEN conjunct2, THEN mp, OF rd]
  have 1: "ok (fst (activitySnapshot demo_platform degraded_upstream ''https://github.com/o/r''))"
    using S by blast
  have 2: "\<exists>d. response_data (fst (activitySnapshot demo_platform degraded_upstream ''https://github.com/o/r''))
            = Some d
          \<and> last_commit_date d = None \<and> last_commit_message d = None
          \<and> open_prs_count d = 0 \<and> contributors_count d = 0"
    using S [THEN conjunct2, THEN conjunct1] unfolding lc pr cc by simp
  have 3: "meta_warnings (fst (activitySnapshot demo_platform degraded_upstream ''https://github.com/o/r''))
       = [''Could not fetch open PRs count'', ''Could not fetch contributors count'',
          ''Could not fetch latest commit information'']"
    using S [THEN conjunct2, THEN conjunct2, THEN conjunct1] unfolding lc pr cc by simp
  have 4: "error_code (fst (activitySnapshot demo_platform missing_upstream ''https://github.com/o/r''))
       = Some UPSTREAM_ERROR
   \<and> \<not> ok (fst (activitySnapshot demo_platform missing_upstream ''https://github.com/o/r''))"
    by (rule M [THEN conjunct1, THEN mp, OF fr])
  show ?thesis
    using demo_parse fl fp fc 1 2 3 fr 4 by (intro conjI) blast+
qed

section \<open>Properties of the four entry points\<close>

lemma gitlab_rejected: "parseRepoUrl (newURL demo_platform) ''https://gitlab.com/o/r'' = None"
  by (simp add: demo_platform_def https_URL_def parseRepoUrl_def)

lemma malformed_rejected: "parseRepoUrl (newURL demo_platform) ''not a url'' = None"
  by (simp add: demo_platform_def https_URL_def parseRepoUrl_def)


text \<open>
  Claim C9.  For a URL string that the parser rejects, each of \<open>repoOverview\<close>,
  \<open>extractKeyFiles\<close>, \<open>releaseNotes\<close> and \<open>activitySnapshot\<close> returns an error envelope with
  code \<open>INVALID_INPUT\<close> and passes no URL to \<open>rateLimitedFetch\<close>.
\<close>

theorem invalid_url_no_call:
  assumes "parseRepoUrl (newURL P) u = None"
  shows "error_code (fst (repoOverview P f_repo u)) = Some INVALID_INPUT
    \<and> snd (repoOverview P f_repo u) = []
    \<and> error_code (fst (extractKeyFiles P f_api f_raw u paths)) = Some INVALID_INPUT
    \<and> snd (extractKeyFiles P f_api f_raw u paths) = []
    \<and> error_code (fst (releaseNotes P f_rel u limit)) = Some INVALID_INPUT
    \<and> snd (releaseNotes P f_rel u limit) = []
    \<and> error_code (fst (activitySnapshot P up u)) = Some INVALID_INPUT
    \<and> snd (activitySnapshot P up u) = []"
  using assms
  by (simp add: repoOverview_def extractKeyFiles_def releaseNotes_def activitySnapshot_def
      invalid_url_response_def createErrorResponse_def)

theorem invalid_url_no_call_witness:
  "parseRepoUrl (newURL demo_platform) ''https://gitlab.com/o/r'' = None
   \<and> error_code (fst (repoOverview demo_platform (repo_fetch demo_upstream) ''https://gitlab.com/o/r''))
       = Some INVALID_INPUT
   \<and> snd (repoOverview demo_platform (repo_fetch demo_upstream) ''https://gitlab.com/o/r'') = []
   \<and> error_code (fst (extractKeyFiles demo_platform (\<lambda>u. respond 200 ''OK'' [] (Inr (Some ''main'')))
                        (\<lambda>u. respond 200 ''OK'' [] (Inr [])) ''https://gitlab.com/o/r'' None))
       = Some INVALID_INPUT
   \<and> snd (extractKeyFiles demo_platform (\<lambda>u. respond 200 ''OK'' [] (Inr (Some ''main'')))
            (\<lambda>u. respond 200 ''OK'' [] (Inr [])) ''https://gitlab.com/o/r'' None) = []
   \<and> error_code (fst (releaseNotes demo_platform (\<lambda>u. respond 200 ''OK'' [] (Inr []))
                        ''https://gitlab.com/o/r'' (Some 5)))
       = Some INVALID_INPUT
   \<and> snd (releaseNotes demo_platform (\<lambda>u. respond 200 ''OK'' [] (Inr []))
            ''https://gitlab.com/o/r'' (Some 5)) = []
   \<and> error_code (fst (activitySnapshot demo_platform demo_upstream ''https://gitlab.com/o/r''))
       = Some INVALID_INPUT
   \<and> snd (activitySnapshot demo_platform demo_upstream ''https://gitlab.com/o/r'') = []
   \<and> parseRepoUrl (newURL demo_platform) ''not a url'' = None
   \<and> snd (activitySnapshot demo_platform demo_upstream ''not a url'') = []"
  using gitlab_rejected malformed_rejected
    invalid_url_no_call [OF gitlab_rejected, of "repo_fetch demo_upstream"
      "\<lambda>u. respond 200 ''OK'' [] (Inr (Some ''main''))" "\<lambda>u. respond 200 ''OK'' [] (Inr [])" None
      "\<lambda>u. respond 200 ''OK'' [] (Inr [])" "Some 5" demo_upstream]
    invalid_url_no_call [OF malformed_rejected, of "repo_fetch demo_upstream"
      "\<lambda>u. respond 200 ''OK'' [] (Inr (Some ''main''))" "\<lambda>u. respond 200 ''OK'' [] (Inr [])" None
      "\<lambda>u. respond 200 ''OK'' [] (Inr [])" "Some 5" demo_upstream]
  by blast


section \<open>Properties of the key-files tool\<close>



lemma extractKeyFiles_branch:
  assumes "parseRepoUrl (newURL P) u = Some ri"
    and "fst (getDefaultBranch f_api (owner ri) (repo ri)) = Some b" "b \<noteq> []"
  shows "fst (extractKeyFiles P f_api f_raw u paths) =
     createSuccessResponse (now_iso P)
       \<lparr>files = map (\<lambda>p. fst (fetchRawFile f_raw (owner ri) (repo ri) b p)) (filePaths paths),
        default_branch = b\<rparr>
       (Some (''https://github.com/'' @ owner ri @ ''/'' @ repo ri))
       (Some (file_warnings (map (\<lambda>p. fst (fetchRawFile f_raw (owner ri) (repo ri) b p)) (filePaths paths))))
       None"
  using assms
  by (simp add: extractKeyFiles_def split_def Let_def comp_def)

lemma fetchRawFile_path: "path (fst (fetchRawFile f own rep b p)) = p"
  by (simp add: fetchRawFile_def Let_def split: fetch_outcome.split sum.split)





lemma branch_main_resolved:
  "fst (getDefaultBranch branch_main (owner \<lparr>owner = ''o'', repo = ''r''\<rparr>) (repo \<lparr>owner = ''o'', repo = ''r''\<rparr>))
     = Some ''main''"
  by (simp add: getDefaultBranch_def branch_main_def respond_def response_ok_def)


lemma filePaths_requested: "filePaths paths = requested_paths paths"
  by (cases paths rule: requested_paths.cases) (simp_all add: filePaths_def DEFAULT_PATHS_def)

lemma fetchRawFile_call: "snd (fetchRawFile f own rep b p) = [raw_url own rep b p]"
  by (simp add: fetchRawFile_def Let_def)

lemma getDefaultBranch_call: "snd (getDefaultBranch f own rep) = [''https://api.github.com/repos/'' @ own @ ''/'' @ rep]"
  by (simp add: getDefaultBranch_def Let_def)

lemma extractKeyFiles_calls:
  assumes "parseRepoUrl (newURL P) u = Some ri"
    and "fst (getDefaultBranch f_api (owner ri) (repo ri)) = Some b" "b \<noteq> []"
  shows "snd (extractKeyFiles P f_api f_raw u paths)
     = repo_url ri # map (raw_url (owner ri) (repo ri) b) (filePaths paths)"
proof -
  have c: "concat (map (\<lambda>p. snd (fetchRawFile f_raw (owner ri) (repo ri) b p)) ps)
      = map (raw_url (owner ri) (repo ri) b) ps" for ps
    by (induction ps) (simp_all add: fetchRawFile_call)
  show ?thesis
    using assms by (simp add: extractKeyFiles_def split_def Let_def comp_def c getDefaultBranch_call)
qed

text \<open>
  Claim C10.  The key-files tool called with an empty list of paths returns what it
  returns when the paths are omitted, envelope and upstream calls alike.  Whenever the
  default branch is resolved, the tool calls the repository resource and then the raw
  URL of each requested path, in order, and returns one file entry for each of them:
  for an omitted or empty list these are \<open>README.md\<close>, \<open>LICENSE\<close>, \<open>package.json\<close> and
  \<open>pyproject.toml\<close>, for a non-empty list the paths of the list as given.
\<close>

theorem extractKeyFiles_empty_paths:
  "extractKeyFiles P f_api f_raw u (Some []) = extractKeyFiles P f_api f_raw u None
   \<and> (\<forall>ri b. parseRepoUrl (newURL P) u = Some ri
              \<and> fst (getDefaultBranch f_api (owner ri) (repo ri)) = Some b \<and> b \<noteq> [] \<longrightarrow>
         (\<exists>d. response_data (fst (extractKeyFiles P f_api f_raw u paths)) = Some d
              \<and> map path (files d) = requested_paths paths
              \<and> files d = map (\<lambda>p. fst (fetchRawFile f_raw (owner ri) (repo ri) b p))
                             (requested_paths paths))
         \<and> snd (extractKeyFiles P f_api f_raw u paths)
             = repo_url ri # map (raw_url (owner ri) (repo ri) b) (requested_paths paths))"
proof (intro conjI allI impI)
  have e: "filePaths (Some []) = filePaths None"
    by (simp add: filePaths_def)
  show "extractKeyFiles P f_api f_raw u (Some []) = extractKeyFiles P f_api f_raw u None"
    unfolding extractKeyFiles_def e ..
next
  fix ri b
  assume a: "parseRepoUrl (newURL P) u = Some ri
              \<and> fst (getDefaultBranch f_api (owner ri) (repo ri)) = Some b \<and> b \<noteq> []"
  then have p: "parseRepoUrl (newURL P) u = Some ri"
    and br: "fst (getDefaultBranch f_api (owner ri) (repo ri)) = Some b" and ne: "b \<noteq> []"
    by simp_all
  let ?fs = "map (\<lambda>p. fst (fetchRawFile f_raw (owner ri) (repo ri) b p)) (requested_paths paths)"
  note e = extractKeyFiles_branch [OF p br ne, of f_raw paths]
  have d: "response_data (fst (extractKeyFiles P f_api f_raw u paths))
      = Some \<lparr>files = ?fs, default_branch = b\<rparr>"
    by (simp add: e createSuccessResponse_def filePaths_requested)
  have ps: "map path ?fs = requested_paths paths"
    by (simp add: comp_def fetchRawFile_path)
  show "\<exists>d. response_data (fst (extractKeyFiles P f_api f_raw u paths)) = Some d
              \<and> map path (files d) = requested_paths paths
              \<and> files d = map (\<lambda>p. fst (fetchRawFile f_raw (owner ri) (repo ri) b p))
                             (requested_paths paths)"
    apply (rule exI [of _ "\<lparr>files = ?fs, default_branch = b\<rparr>"])
    apply (intro conjI)
      apply (rule d)
     apply (simp only: ExtractKeyFilesData.simps ps)
    apply (simp only: ExtractKeyFilesData.simps)
    done
  show "snd (extractKeyFiles P f_api f_raw u paths)
             = repo_url ri # map (raw_url (owner ri) (repo ri) b) (requested_paths paths)"
    using extractKeyFiles_calls [OF p br ne, of f_raw paths] by (simp add: filePaths_requested)
qed

theorem extractKeyFiles_empty_paths_witness:
  "snd (extractKeyFiles demo_platform branch_main readme_only ''https://github.com/o/r'' (Some []))
     = [''https://api.github.com/repos/o/r'',
        ''https://raw.githubusercontent.com/o/r/main/README.md'',
        ''https://raw.githubusercontent.com/o/r/main/LICENSE'',
        ''https://raw.githubusercontent.com/o/r/main/package.json'',
        ''https://raw.githubusercontent.com/o/r/main/pyproject.toml'']
   \<and> snd (extractKeyFiles demo_platform branch_main readme_only ''https://github.com/o/r'' None)
     = [''https://api.github.com/repos/o/r'',
        ''https://raw.githubusercontent.com/o/r/main/README.md'',
        ''https://raw.githubusercontent.com/o/r/main/LICENSE'',
        ''https://raw.githubusercontent.com/o/r/main/package.json'',
        ''https://raw.githubusercontent.com/o/r/main/pyproject.toml'']
   \<and> (\<exists>d. response_data (fst (extractKeyFiles demo_platform branch_main readme_only
                                ''https://github.com/o/r'' (Some []))) = Some d
          \<and> map path (files d) = [''README.md'', ''LICENSE'', ''package.json'', ''pyproject.toml''])
   \<and> snd (extractKeyFiles demo_platform branch_main readme_only ''https://github.com/o/r''
            (Some [''Cargo.toml'', ''README.md'']))
     = [''https://api.github.com/repos/o/r'',
        ''https://raw.githubusercontent.com/o/r/main/Cargo.toml'',
        ''https://raw.githubusercontent.com/o/r/main/README.md'']
   \<and> (\<exists>d. response_data (fst (extractKeyFiles demo_platform branch_main readme_only
                                ''https://github.com/o/r'' (Some [''Cargo.toml'', ''README.md'']))) = Some d
          \<and> map path (files d) = [''Cargo.toml'', ''README.md''])"
proof -
  let ?ri = "\<lparr>owner = ''o'', repo = ''r''\<rparr>"
  have h: "parseRepoUrl (newURL demo_platform) ''https://github.com/o/r'' = Some ?ri
              \<and> fst (getDefaultBranch branch_main (owner ?ri) (repo ?ri)) = Some ''main'' \<and> ''main'' \<noteq> []"
    using demo_parse branch_main_resolved by simp
  note E = extractKeyFiles_empty_paths [of demo_platform branch_main readme_only
      "''https://github.com/o/r''" "Some []", THEN conjunct2, THEN spec, THEN spec, THEN mp, OF h]
  note N = extractKeyFiles_empty_paths [of demo_platform branch_main readme_only
      "''https://github.com/o/r''" None, THEN conjunct2, THEN spec, THEN spec, THEN mp, OF h]
  note C = extractKeyFiles_empty_paths [of demo_platform branch_main readme_only
      "''https://github.com/o/r''" "Some [''Cargo.toml'', ''README.md'']",
      THEN conjunct2, THEN spec, THEN spec, THEN mp, OF h]
  have 1: "snd (extractKeyFiles demo_platform branch_main readme_only ''https://github.com/o/r'' (Some []))
     = [''https://api.github.com/repos/o/r'',
        ''https://raw.githubusercontent.com/o/r/main/README.md'',
        ''https://raw.githubusercontent.com/o/r/main/LICENSE'',
        ''https://raw.githubusercontent.com/o/r/main/package.json'',
        ''https://raw.githubusercontent.com/o/r/main/pyproject.toml'']"
    using E [THEN conjunct2] by simp
  have 2: "snd (extractKeyFiles demo_platform branch_main readme_only ''https://github.com/o/r'' None)
     = [''https://api.github.com/repos/o/r'',
        ''https://raw.githubusercontent.com/o/r/main/README.md'',
        ''https://raw.githubusercontent.com/o/r/main/LICENSE'',
        ''https://raw.githubusercontent.com/o/r/main/package.json'',
        ''https://raw.githubusercontent.com/o/r/main/pyproject.toml'']"
    using N [THEN conjunct2] by simp
  have 3: "\<exists>d. response_data (fst (extractKeyFiles demo_platform branch_main readme_only
                                ''https://github.com/o/r'' (Some []))) = Some d
          \<and> map path (files d) = [''README.md'', ''LICENSE'', ''package.json'', ''pyproject.toml'']"
    using E [THEN conjunct1] by auto
  have 4: "snd (extractKeyFiles demo_platform branch_main readme_only ''https://github.com/o/r''
            (Some [''Cargo.toml'', ''README.md'']))
     = [''https://api.github.com/repos/o/r'',
        ''https://raw.githubusercontent.com/o/r/main/Cargo.toml'',
        ''https://raw.githubusercontent.com/o/r/main/README.md'']"
    using C [THEN conjunct2] by simp
  have 5: "\<exists>d. response_data (fst (extractKeyFiles demo_platform branch_main readme_only
                                ''https://github.com/o/r'' (Some [''Cargo.toml'', ''README.md'']))) = Some d
          \<and> map path (files d) = [''Cargo.toml'', ''README.md'']"
    using C [THEN conjunct1] by auto
  show ?thesis
    using 1 2 3 4 5 by (intro conjI)
qed

lemma ascii_unit_not_surrogate: "(u :: 16 word) < 0x80 \<Longrightarrow> \<not> 0xD800 \<le> u"
  by (simp add: word_less_nat_alt word_le_nat_alt)

lemma utf8_byte_length_ascii:
  "list_all (\<lambda>u. u < 0x80) cs \<Longrightarrow> utf8_byte_length cs = length cs"
  by (induction cs rule: utf8_byte_length.induct)
     (simp_all add: unit_bytes_def ascii_unit_not_surrogate)

lemma fetchRawFile_null_iff:
  "(content (fst (fetchRawFile fetch own rep b p)) = None)
     = (error (fst (fetchRawFile fetch own rep b p)) \<noteq> None)"
  by (simp add: fetchRawFile_def Let_def split: fetch_outcome.split sum.split)

lemma fetchRawFile_encoding: "encoding (fst (fetchRawFile fetch own rep b p)) = ''utf-8''"
  by (simp add: fetchRawFile_def Let_def split: fetch_outcome.split sum.split)

lemma fetchRawFile_404:
  "fetch (raw_url own rep b p) = Resolved r \<Longrightarrow> status r = 404 \<Longrightarrow>
     fst (fetchRawFile fetch own rep b p)
       = \<lparr>path = p, content = None, fsize = None, encoding = ''utf-8'', error = Some ''File not found''\<rparr>"
  by (simp add: fetchRawFile_def Let_def)

lemma fetchRawFile_status:
  "fetch (raw_url own rep b p) = Resolved r \<Longrightarrow> status r \<noteq> 404 \<Longrightarrow> \<not> response_ok r \<Longrightarrow>
     fst (fetchRawFile fetch own rep b p)
       = \<lparr>path = p, content = None, fsize = None, encoding = ''utf-8'',
          error = Some (''HTTP '' @ string_of_nat (status r) @ '': '' @ statusText r)\<rparr>"
  by (simp add: fetchRawFile_def Let_def del: string_of_nat.simps)

lemma fetchRawFile_rejected:
  "fetch (raw_url own rep b p) = Rejected (JsError nm msg) \<Longrightarrow>
     fst (fetchRawFile fetch own rep b p)
       = \<lparr>path = p, content = None, fsize = None, encoding = ''utf-8'', error = Some msg\<rparr>"
  by (simp add: fetchRawFile_def Let_def)

lemma fetchRawFile_body_rejected:
  "fetch (raw_url own rep b p) = Resolved r \<Longrightarrow> response_ok r \<Longrightarrow> body r = Inl (JsError nm msg) \<Longrightarrow>
     fst (fetchRawFile fetch own rep b p)
       = \<lparr>path = p, content = None, fsize = None, encoding = ''utf-8'', error = Some msg\<rparr>"
  by (auto simp: fetchRawFile_def Let_def response_ok_def)

lemma fetchRawFile_success:
  "fetch (raw_url own rep b p) = Resolved r \<Longrightarrow> response_ok r \<Longrightarrow> body r = Inr cs \<Longrightarrow>
     fst (fetchRawFile fetch own rep b p)
       = \<lparr>path = p, content = Some cs, fsize = Some (length cs), encoding = ''utf-8'', error = None\<rparr>"
  by (auto simp: fetchRawFile_def Let_def response_ok_def)

text \<open>
  Claim C3, as amended.  For every fetch of one file by the key-files tool: a 404 response
  gives content \<open>null\<close> and the error \<open>File not found\<close>; any other response outside 200 to
  299 gives content \<open>null\<close> and the error \<open>HTTP <status>: <status text>\<close>; a call (or a
  reading of the body) that throws an error gives content \<open>null\<close> and that error's
  message; a 2xx response gives the body text as content, with size the length of the
  text in UTF-16 code units, which is its byte length when the text is ASCII, and no
  error; the encoding is always \<open>utf-8\<close>; and the content is \<open>null\<close> exactly when the
  error is set.
\<close>

theorem fetchRawFile_outcomes:
  "path (fst (fetchRawFile fetch own rep b p)) = p
   \<and> encoding (fst (fetchRawFile fetch own rep b p)) = ''utf-8''
   \<and> ((content (fst (fetchRawFile fetch own rep b p)) = None)
        = (error (fst (fetchRawFile fetch own rep b p)) \<noteq> None))
   \<and> (\<forall>r. fetch (raw_url own rep b p) = Resolved r \<and> status r = 404 \<longrightarrow>
         content (fst (fetchRawFile fetch own rep b p)) = None
         \<and> error (fst (fetchRawFile fetch own rep b p)) = Some ''File not found'')
   \<and> (\<forall>r. fetch (raw_url own rep b p) = Resolved r \<and> status r \<noteq> 404 \<and> \<not> response_ok r \<longrightarrow>
         content (fst (fetchRawFile fetch own rep b p)) = None
         \<and> error (fst (fetchRawFile fetch own rep b p))
             = Some (''HTTP '' @ string_of_nat (status r) @ '': '' @ statusText r))
   \<and> (\<forall>nm msg. fetch (raw_url own rep b p) = Rejected (JsError nm msg) \<longrightarrow>
         content (fst (fetchRawFile fetch own rep b p)) = None
         \<and> error (fst (fetchRawFile fetch own rep b p)) = Some msg)
   \<and> (\<forall>r nm msg. fetch (raw_url own rep b p) = Resolved r \<and> response_ok r
                   \<and> body r = Inl (JsError nm msg) \<longrightarrow>
         content (fst (fetchRawFile fetch own rep b p)) = None
         \<and> error (fst (fetchRawFile fetch own rep b p)) = Some msg)
   \<and> (\<forall>r cs. fetch (raw_url own rep b p) = Resolved r \<and> response_ok r \<and> body r = Inr cs \<longrightarrow>
         content (fst (fetchRawFile fetch own rep b p)) = Some cs
         \<and> fsize (fst (fetchRawFile fetch own rep b p)) = Some (length cs)
         \<and> error (fst (fetchRawFile fetch own rep b p)) = None
         \<and> (list_all (\<lambda>u. u < 0x80) cs \<longrightarrow>
              fsize (fst (fetchRawFile fetch own rep b p)) = Some (utf8_byte_length cs)))"
proof (intro conjI allI impI)
  show "path (fst (fetchRawFile fetch own rep b p)) = p"
    by (rule fetchRawFile_path)
  show "encoding (fst (fetchRawFile fetch own rep b p)) = ''utf-8''"
    by (rule fetchRawFile_encoding)
  show "(content (fst (fetchRawFile fetch own rep b p)) = None)
        = (error (fst (fetchRawFile fetch own rep b p)) \<noteq> None)"
    by (rule fetchRawFile_null_iff)
next
  fix r assume "fetch (raw_url own rep b p) = Resolved r \<and> status r = 404"
  then have e: "fst (fetchRawFile fetch own rep b p)
       = \<lparr>path = p, content = None, fsize = None, encoding = ''utf-8'', error = Some ''File not found''\<rparr>"
    using fetchRawFile_404 by blast
  show "content (fst (fetchRawFile fetch own rep b p)) = None"
    and "error (fst (fetchRawFile fetch own rep b p)) = Some ''File not found''"
    by (simp_all add: e)
next
  fix r assume "fetch (raw_url own rep b p) = Resolved r \<and> status r \<noteq> 404 \<and> \<not> response_ok r"
  then have e: "fst (fetchRawFile fetch own rep b p)
       = \<lparr>path = p, content = None, fsize = None, encoding = ''utf-8'',
          error = Some (''HTTP '' @ string_of_nat (status r) @ '': '' @ statusText r)\<rparr>"
    using fetchRawFile_status by blast
  show "content (fst (fetchRawFile fetch own rep b p)) = None"
    and "error (fst (fetchRawFile fetch own rep b p))
             = Some (''HTTP '' @ string_of_nat (status r) @ '': '' @ statusText r)"
    by (simp_all add: e del: string_of_nat.simps)
next
  fix nm msg assume "fetch (raw_url own rep b p) = Rejected (JsError nm msg)"
  then have e: "fst (fetchRawFile fetch own rep b p)
       = \<lparr>path = p, content = None, fsize = None, encoding = ''utf-8'', error = Some msg\<rparr>"
    by (rule fetchRawFile_rejected)
  show "content (fst (fetchRawFile fetch own rep b p)) = None"
    and "error (fst (fetchRawFile fetch own rep b p)) = Some msg"
    by (simp_all add: e)
next
  fix r nm msg
  assume "fetch (raw_url own rep b p) = Resolved r \<and> response_ok r \<and> body r = Inl (JsError nm msg)"
  then have e: "fst (fetchRawFile fetch own rep b p)
       = \<lparr>path = p, content = None, fsize = None, encoding = ''utf-8'', error = Some msg\<rparr>"
    using fetchRawFile_body_rejected by blast
  show "content (fst (fetchRawFile fetch own rep b p)) = None"
    and "error (fst (fetchRawFile fetch own rep b p)) = Some msg"
    by (simp_all add: e)
next
  fix r cs
  assume "fetch (raw_url own rep b p) = Resolved r \<and> response_ok r \<and> body r = Inr cs"
  then have e: "fst (fetchRawFile fetch own rep b p)
       = \<lparr>path = p, content = Some cs, fsize = Some (length cs), encoding = ''utf-8'', error = None\<rparr>"
    using fetchRawFile_success by blast
  show "content (fst (fetchRawFile fetch own rep b p)) = Some cs"
    and "fsize (fst (fetchRawFile fetch own rep b p)) = Some (length cs)"
    and "error (fst (fetchRawFile fetch own rep b p)) = None"
    by (simp_all add: e)
  assume "list_all (\<lambda>u. u < 0x80) cs"
  then show "fsize (fst (fetchRawFile fetch own rep b p)) = Some (utf8_byte_length cs)"
    by (simp add: e utf8_byte_length_ascii)
qed

text \<open>
  Claim C3 as the specification states it does not hold: the error of a 500 response is
  \<open>HTTP 500: Internal Server Error\<close>, not \<open>500: Internal Server Error\<close>, and the size of the
  text of the single letter U+00E9 is 1, while its UTF-8 encoding has two bytes.
\<close>

lemma string_of_nat_500: "string_of_nat 500 = ''500''"
  by code_simp

theorem fetchRawFile_counterexample:
  "error (fst (fetchRawFile (\<lambda>u. respond 500 ''Internal Server Error'' [] (Inr []))
                ''o'' ''r'' ''main'' ''README.md''))
     = Some ''HTTP 500: Internal Server Error''
   \<and> error (fst (fetchRawFile (\<lambda>u. respond 500 ''Internal Server Error'' [] (Inr []))
                ''o'' ''r'' ''main'' ''README.md''))
     \<noteq> Some ''500: Internal Server Error''
   \<and> fsize (fst (fetchRawFile (\<lambda>u. respond 200 ''OK'' [] (Inr [0xE9]))
                ''o'' ''r'' ''main'' ''README.md'')) = Some 1
   \<and> utf8_byte_length [0xE9] = 2"
  by (simp add: fetchRawFile_def respond_def response_ok_def Let_def unit_bytes_def
      string_of_nat_500 del: string_of_nat.simps)

theorem fetchRawFile_outcomes_witness:
  "content (fst (fetchRawFile (\<lambda>u. respond 404 ''Not Found'' [] (Inr [])) ''o'' ''r'' ''main'' ''LICENSE''))
     = None
   \<and> error (fst (fetchRawFile (\<lambda>u. respond 404 ''Not Found'' [] (Inr [])) ''o'' ''r'' ''main'' ''LICENSE''))
     = Some ''File not found''
   \<and> error (fst (fetchRawFile (\<lambda>u. respond 500 ''Internal Server Error'' [] (Inr []))
                   ''o'' ''r'' ''main'' ''LICENSE''))
     = Some ''HTTP 500: Internal Server Error''
   \<and> error (fst (fetchRawFile (\<lambda>u. Rejected (JsError ''AbortError'' ''This operation was aborted''))
                   ''o'' ''r'' ''main'' ''LICENSE''))
     = Some ''This operation was aborted''
   \<and> error (fst (fetchRawFile (\<lambda>u. respond 200 ''OK'' [] (Inl (JsError ''TypeError'' ''terminated'')))
                   ''o'' ''r'' ''main'' ''LICENSE''))
     = Some ''terminated''
   \<and> content (fst (fetchRawFile readme_only ''o'' ''r'' ''main'' ''README.md''))
     = Some (ascii (''# Test Repo'' @ [CHR 0x0A] @ ''Description here''))
   \<and> error (fst (fetchRawFile readme_only ''o'' ''r'' ''main'' ''README.md'')) = None
   \<and> fsize (fst (fetchRawFile readme_only ''o'' ''r'' ''main'' ''README.md'')) = Some 28
   \<and> fsize (fst (fetchRawFile readme_only ''o'' ''r'' ''main'' ''README.md''))
     = Some (utf8_byte_length (ascii (''# Test Repo'' @ [CHR 0x0A] @ ''Description here'')))"
proof -
  let ?f404 = "\<lambda>u :: string. respond 404 ''Not Found'' [] (Inr [] :: thrown + utf16)"
  let ?f500 = "\<lambda>u :: string. respond 500 ''Internal Server Error'' [] (Inr [] :: thrown + utf16)"
  let ?frej = "\<lambda>u :: string. (Rejected (JsError ''AbortError'' ''This operation was aborted'') :: utf16 fetch_outcome)"
  let ?fbody = "\<lambda>u :: string. respond 200 ''OK'' [] (Inl (JsError ''TypeError'' ''terminated'') :: thrown + utf16)"
  let ?readme = "ascii (''# Test Repo'' @ [CHR 0x0A] @ ''Description here'')"
  note A = fetchRawFile_outcomes [of ?f404 "''o''" "''r''" "''main''" "''LICENSE''"]
  note B = fetchRawFile_outcomes [of ?f500 "''o''" "''r''" "''main''" "''LICENSE''"]
  note C = fetchRawFile_outcomes [of ?frej "''o''" "''r''" "''main''" "''LICENSE''"]
  note D = fetchRawFile_outcomes [of ?fbody "''o''" "''r''" "''main''" "''LICENSE''"]
  note E = fetchRawFile_outcomes [of readme_only "''o''" "''r''" "''main''" "''README.md''"]
  have a: "content (fst (fetchRawFile ?f404 ''o'' ''r'' ''main'' ''LICENSE'')) = None
     \<and> error (fst (fetchRawFile ?f404 ''o'' ''r'' ''main'' ''LICENSE'')) = Some ''File not found''"
    by (rule A [THEN conjunct2, THEN conjunct2, THEN conjunct2, THEN conjunct1, THEN spec, THEN mp,
          of "\<lparr>status = 404, statusText = ''Not Found'', headers = map_of [], body = Inr []\<rparr>"])
       (simp add: respond_def)
  have b: "content (fst (fetchRawFile ?f500 ''o'' ''r'' ''main'' ''LICENSE'')) = None
     \<and> error (fst (fetchRawFile ?f500 ''o'' ''r'' ''main'' ''LICENSE''))
         = Some (''HTTP '' @ string_of_nat 500 @ '': '' @ ''Internal Server Error'')"
    using B [THEN conjunct2, THEN conjunct2, THEN conjunct2, THEN conjunct2, THEN conjunct1,
          THEN spec, THEN mp,
          of "\<lparr>status = 500, statusText = ''Internal Server Error'', headers = map_of [], body = Inr []\<rparr>"]
    by (simp add: respond_def response_ok_def del: string_of_nat.simps)
  have c: "content (fst (fetchRawFile ?frej ''o'' ''r'' ''main'' ''LICENSE'')) = None
     \<and> error (fst (fetchRawFile ?frej ''o'' ''r'' ''main'' ''LICENSE'')) = Some ''This operation was aborted''"
    by (rule C [THEN conjunct2, THEN conjunct2, THEN conjunct2, THEN conjunct2, THEN conjunct2,
          THEN conjunct1, THEN spec, THEN spec, THEN mp, of "''AbortError''"]) simp
  have d: "content (fst (fetchRawFile ?fbody ''o'' ''r'' ''main'' ''LICENSE'')) = None
     \<and> error (fst (fetchRawFile ?fbody ''o'' ''r'' ''main'' ''LICENSE'')) = Some ''terminated''"
    by (rule D [THEN conjunct2, THEN conjunct2, THEN conjunct2, THEN conjunct2, THEN conjunct2,
          THEN conjunct2, THEN conjunct1, THEN spec, THEN spec, THEN spec, THEN mp,
          of "\<lparr>status = 200, statusText = ''OK'', headers = map_of [],
               body = Inl (JsError ''TypeError'' ''terminated'')\<rparr>" "''TypeError''"])
       (simp add: respond_def response_ok_def)
  have asc: "list_all (\<lambda>u. u < 0x80) ?readme"
    by (simp add: ascii_def)
  have len: "length ?readme = 28"
    by (simp add: ascii_def)
  have e: "content (fst (fetchRawFile readme_only ''o'' ''r'' ''main'' ''README.md'')) = Some ?readme
         \<and> fsize (fst (fetchRawFile readme_only ''o'' ''r'' ''main'' ''README.md'')) = Some (length ?readme)
         \<and> error (fst (fetchRawFile readme_only ''o'' ''r'' ''main'' ''README.md'')) = None
         \<and> (list_all (\<lambda>u. u < 0x80) ?readme \<longrightarrow>
              fsize (fst (fetchRawFile readme_only ''o'' ''r'' ''main'' ''README.md''))
                = Some (utf8_byte_length ?readme))"
    by (rule E [THEN conjunct2, THEN conjunct2, THEN conjunct2, THEN conjunct2, THEN conjunct2,
          THEN conjunct2, THEN conjunct2, THEN spec, THEN spec, THEN mp,
          of "\<lparr>status = 200, statusText = ''OK'', headers = map_of [], body = Inr ?readme\<rparr>"])
       (simp add: readme_only_def respond_def response_ok_def)
  have e4: "fsize (fst (fetchRawFile readme_only ''o'' ''r'' ''main'' ''README.md''))
                = Some (utf8_byte_length ?readme)"
    using e asc by blast
  have e2: "fsize (fst (fetchRawFile readme_only ''o'' ''r'' ''main'' ''README.md'')) = Some 28"
    using e len by simp
  have b2: "error (fst (fetchRawFile ?f500 ''o'' ''r'' ''main'' ''LICENSE''))
         = Some ''HTTP 500: Internal Server Error''"
    using b by (simp add: string_of_nat_500 del: string_of_nat.simps)
  show ?thesis
    using a b2 c d e e2 e4 by (intro conjI) blast+
qed

section \<open>Properties of the classification of 403 responses\<close>

lemma is_digit_facts:
  assumes "is_digit c"
  shows "radix_digit 10 c = Some (digit_val c)" "\<not> is_space c" "c \<noteq> CHR ''-''" "c \<noteq> CHR ''+''"
    "c \<noteq> CHR ''x''" "c \<noteq> CHR ''X''"
  using assms
  by (auto simp: is_digit_def radix_digit_def hex_val_def digit_val_def is_space_def)

lemma takeWhile_radix_digits:
  "list_all is_digit ds \<Longrightarrow> takeWhile (\<lambda>c. radix_digit 10 c \<noteq> None) ds = ds"
  by (induction ds) (simp_all add: is_digit_facts)

lemma foldl_radix_digits:
  "list_all is_digit ds \<Longrightarrow>
     foldl (\<lambda>acc c. 10 * acc + the (radix_digit 10 c)) a ds = foldl (\<lambda>acc c. 10 * acc + digit_val c) a ds"
  by (induction ds arbitrary: a) (simp_all add: is_digit_facts)

lemma parseInt_digits:
  assumes "ds \<noteq> []" "list_all is_digit ds"
  shows "parseInt ds = Some (int (digits_value ds))"
proof -
  obtain c cs where ds: "ds = c # cs" using assms(1) by (cases ds) auto
  then have c: "is_digit c" using assms(2) by simp
  have sp: "dropWhile is_space ds = ds"
    using ds is_digit_facts(2) [OF c] by simp
  have nohex: "\<not> prefix ''0x'' ds" "\<not> prefix ''0X'' ds"
  proof -
    show "\<not> prefix ''0x'' ds"
    proof
      assume "prefix ''0x'' ds"
      then obtain r where "ds = ''0x'' @ r" by (auto simp: prefix_def)
      then have "is_digit CHR ''x''" using assms(2) by simp
      then show False by (simp add: is_digit_def)
    qed
    show "\<not> prefix ''0X'' ds"
    proof
      assume "prefix ''0X'' ds"
      then obtain r where "ds = ''0X'' @ r" by (auto simp: prefix_def)
      then have "is_digit CHR ''X''" using assms(2) by simp
      then show False by (simp add: is_digit_def)
    qed
  qed
  have hd: "hd ds \<noteq> CHR ''-''" "hd ds \<noteq> CHR ''+''"
    using ds is_digit_facts(3,4) [OF c] by simp_all
  show ?thesis
    unfolding parseInt_def sp Let_def
    using assms(1) hd nohex
    by (simp add: takeWhile_radix_digits [OF assms(2)] foldl_radix_digits [OF assms(2)] digits_value_def
        del: not_None_eq)
qed

lemma reset_at_value_digits:
  assumes "ds \<noteq> []" "list_all is_digit ds" "digits_value ds \<le> 8640000000000"
  shows "reset_at_value P (Some ds) = Inr (JString (toISOString P (int (digits_value ds) * 1000)))"
  using assms by (simp add: reset_at_value_def parseInt_digits)

lemma parseInt_abc: "parseInt ''abc'' = None"
  by (simp add: parseInt_def is_space_def radix_digit_def hex_val_def)

lemma reset_at_value_abc:
  "reset_at_value P (Some ''abc'') = Inl (JsError ''RangeError'' ''Invalid time value'')"
  by (simp add: reset_at_value_def parseInt_abc)

text \<open>The classification of a 403 response where the code reaches it.\<close>

lemma status_checks_reset_absent:
  assumes "status r = 403" "headers r ''x-ratelimit-remaining'' = Some ''0''"
    "headers r ''x-ratelimit-reset'' = None"
  shows "status_checks P ri r =
     Some (createErrorResponse (now_iso P) RATE_LIMITED ''GitHub API rate limit exceeded''
             [(''reset_at'', JNull)])"
  using assms by (simp add: status_checks_def reset_at_value_def)

lemma status_checks_reset_seconds:
  assumes "status r = 403" "headers r ''x-ratelimit-remaining'' = Some ''0''"
    "headers r ''x-ratelimit-reset'' = Some ds" "ds \<noteq> []" "list_all is_digit ds"
    "digits_value ds \<le> 8640000000000"
  shows "status_checks P ri r =
     Some (createErrorResponse (now_iso P) RATE_LIMITED ''GitHub API rate limit exceeded''
             [(''reset_at'', JString (toISOString P (int (digits_value ds) * 1000)))])"
  using assms by (simp add: status_checks_def reset_at_value_digits)

lemma status_checks_forbidden:
  assumes "status r = 403" "headers r ''x-ratelimit-remaining'' \<noteq> Some ''0''"
  shows "status_checks P ri r =
     Some (createErrorResponse (now_iso P) UPSTREAM_ERROR ''Access forbidden'' [(''status'', JNumber 403)])"
  using assms by (simp add: status_checks_def)

text \<open>
  Claim C4 fails on the code.  The overview tool and the release-notes tool (called
  without a limit) receive a 403 response with \<open>x-ratelimit-remaining: 0\<close> and
  \<open>x-ratelimit-reset: abc\<close>.  \<open>parseInt\<close> gives \<open>NaN\<close>, \<open>toISOString\<close> throws a \<open>RangeError\<close>
  inside the \<open>try\<close> block, and both tools return the envelope of the \<open>catch\<close> clause,
  with code \<open>INTERNAL_ERROR\<close> and message \<open>Invalid time value\<close>, not \<open>RATE_LIMITED\<close>.
\<close>

theorem rate_limited_bad_reset_internal_error:
  "fst (repoOverview demo_platform (\<lambda>u. respond 403 ''Forbidden'' limited_bad_reset (Inr demo_repo))
          ''https://github.com/o/r'')
     = createErrorResponse (now_iso demo_platform) INTERNAL_ERROR ''Invalid time value''
         [(''error_name'', JString ''RangeError'')]
   \<and> fst (releaseNotes demo_platform (\<lambda>u. respond 403 ''Forbidden'' limited_bad_reset (Inr []))
            ''https://github.com/o/r'' None)
     = createErrorResponse (now_iso demo_platform) INTERNAL_ERROR ''Invalid time value''
         [(''error_name'', JString ''RangeError'')]
   \<and> error_code (fst (repoOverview demo_platform
                        (\<lambda>u. respond 403 ''Forbidden'' limited_bad_reset (Inr demo_repo))
                        ''https://github.com/o/r'')) = Some INTERNAL_ERROR
   \<and> error_code (fst (releaseNotes demo_platform
                        (\<lambda>u. respond 403 ''Forbidden'' limited_bad_reset (Inr []))
                        ''https://github.com/o/r'' None)) = Some INTERNAL_ERROR"
  using demo_parse
  by (simp add: repoOverview_def releaseNotes_def Let_def respond_def status_checks_def
      limited_bad_reset_def reset_at_value_abc handle_thrown_def createErrorResponse_def
      del: string_of_nat.simps)

section \<open>The rate-limited fetch under concurrent calls\<close>

text \<open>A call that starts when no timer is pending and the previous dispatch is not in the
  future is dispatched at least \<open>D\<close> after that dispatch: calls made one after the other
  are spaced.\<close>

lemma single_call_spaced:
  assumes "timers s = []" "lastRequestTime s \<le> clock s"
  shows "dispatch_times (run_timers (rateLimitedFetch_start D c s))
           = dispatch_times s @ [max (clock s) (lastRequestTime s + D)]"
  using assms
  by (auto simp: dispatch_times_def run_timers_def rateLimitedFetch_start_def dispatch_def Let_def
      max_def)

text \<open>
  Claim C2 fails on the code.  In a fresh process (\<open>lastRequestTime = 0\<close>) with a delay of
  100 ms, the four calls that \<open>activitySnapshot\<close> issues in one task at time 1000 are
  dispatched at 1000, 1100, 1100 and 1100: the first goes at once, the other three all
  read the same \<open>lastRequestTime\<close>, sleep the same 100 ms and go together, since the
  variable is written only after the sleep.
\<close>

theorem rateLimitedFetch_concurrent_burst:
  "dispatch_times
     (concurrent_calls 100 4 \<lparr>clock = 1000, lastRequestTime = 0, timers = [], dispatched = []\<rparr>)
     = [1000, 1100, 1100, 1100]
   \<and> \<not> spaced 100 [1000, 1100, 1100, 1100]"
  by (simp add: dispatch_times_def concurrent_calls_def run_timers_def rateLimitedFetch_start_def
      dispatch_def Let_def upt_rec)

end
